theory Spec2Isabelle
  imports Main "HOL-Library.Word"
begin

section \<open>Go values and formatting\<close>

text \<open>
  The payload maps are \<^verbatim>\<open>map[string]interface{}\<close>.  An interface value is
  modelled by the dynamic kinds the synchronizer looks at: a string, an \<^verbatim>\<open>int\<close>
  (64 bits, two's complement), a boolean, or the nil interface.  A key that is absent
  from a Go map reads as the nil interface, hence \<open>index\<close>.
\<close>

datatype go_value = GoNil | GoString string | GoInt "64 word" | GoBool bool

definition index :: "(string \<rightharpoonup> go_value) \<Rightarrow> string \<Rightarrow> go_value" where
  "index m k = (case m k of None \<Rightarrow> GoNil | Some v \<Rightarrow> v)"

text \<open>
  A run of Go code either returns or panics.  The two panics of this code are a failed
  type assertion \<^verbatim>\<open>x.(T)\<close> and the dereference of a nil pointer.
\<close>

datatype panic = InterfaceConversion | NilPointerDereference

datatype 'a exec = Panic panic | Done 'a

text \<open>Decimal digits of a natural number, most significant first (the verb \<^verbatim>\<open>%d\<close>).\<close>

definition digit :: "nat \<Rightarrow> char" where
  "digit n = char_of (48 + n)"

function decimal :: "nat \<Rightarrow> string" where
  "decimal n = (if n < 10 then [digit n] else decimal (n div 10) @ [digit (n mod 10)])"
  by pat_completeness auto
termination
  by (relation "measure (\<lambda>n. n)") auto

declare decimal.simps [simp del]

definition fmt_d :: "int \<Rightarrow> string" where
  "fmt_d i = (if i < 0 then CHR ''-'' # decimal (nat (- i)) else decimal (nat i))"

text \<open>The verb \<^verbatim>\<open>%v\<close> on the modelled kinds of value.\<close>

fun fmt_v :: "go_value \<Rightarrow> string" where
  "fmt_v GoNil = ''<nil>''"
| "fmt_v (GoString s) = s"
| "fmt_v (GoInt i) = fmt_d (sint i)"
| "fmt_v (GoBool b) = (if b then ''true'' else ''false'')"

text \<open>Reading a decimal numeral back (used to state what \<open>fmt_d\<close> prints).\<close>

definition digit_value :: "char \<Rightarrow> nat" where
  "digit_value c = of_char c - 48"

definition decimal_value :: "string \<Rightarrow> nat" where
  "decimal_value s = foldl (\<lambda>acc c. 10 * acc + digit_value c) 0 s"

definition int_value :: "string \<Rightarrow> int" where
  "int_value s = (case s of
       [] \<Rightarrow> 0
     | c # cs \<Rightarrow> if c = CHR ''-'' then - int (decimal_value cs) else int (decimal_value s))"

section \<open>The payload\<close>

text \<open>
  Modelled from the spec: \<^verbatim>\<open>midas.Payload\<close> is declared in the root package of the
  repository, which is not among the sources; section 3 of the spec gives it as a
  metadata map and an entry map.
\<close>

record payload =
  Metadata :: "string \<rightharpoonup> go_value"
  Entry :: "string \<rightharpoonup> go_value"

definition assert_string :: "go_value \<Rightarrow> string exec" where
  "assert_string v = (case v of GoString s \<Rightarrow> Done s | _ \<Rightarrow> Panic InterfaceConversion)"

definition assert_int :: "go_value \<Rightarrow> (64 word) exec" where
  "assert_int v = (case v of GoInt i \<Rightarrow> Done i | _ \<Rightarrow> Panic InterfaceConversion)"

text \<open>
  \<^verbatim>\<open>fmt.Sprintf("%s-%d", payload.Metadata()["model"].(string), payload.Entry()["id"].(int))\<close>:
  the arguments are evaluated left to right, each type assertion can panic.
\<close>

definition EntryId :: "payload \<Rightarrow> string exec" where
  "EntryId p =
     (case assert_string (index (Metadata p) ''model'') of
        Panic x \<Rightarrow> Panic x
      | Done m \<Rightarrow>
          (case assert_int (index (Entry p) ''id'') of
             Panic x \<Rightarrow> Panic x
           | Done i \<Rightarrow> Done (m @ ''-'' @ fmt_d (sint i))))"

section \<open>Errors\<close>

text \<open>
  Modelled from the spec: \<^verbatim>\<open>midas.Errorf\<close> and its error codes are declared in the root
  package of the repository, which is not among the sources.  Section 7 of the spec
  names the kinds; the code calls them \<^verbatim>\<open>ErrSiteConfig\<close> (the spec's ConfigError),
  \<^verbatim>\<open>ErrInvalid\<close> (used for a filename collision, the spec's ConflictError) and
  \<^verbatim>\<open>ErrInternal\<close>.
\<close>

datatype code = ErrSiteConfig | ErrInvalid | ErrInternal

text \<open>
  The failures of \<^verbatim>\<open>os.Stat\<close> other than "no such file", and the error numbers of the
  other system calls.
\<close>

datatype fault = EACCES | ENOTDIR | ELOOP | ENAMETOOLONG | EIO

datatype errno = ENOENT | EEXIST | EISDIR | ENOTEMPTY | ENOSPC | Fault fault

text \<open>
  A Go \<^verbatim>\<open>error\<close> value: one made by \<^verbatim>\<open>midas.Errorf\<close> (code and message), an
  \<^verbatim>\<open>*fs.PathError\<close> (operation, path, error number), or any other error (template,
  registry, SDK), known by its message.
\<close>

datatype error = MidasError code string | PathError string string errno | OtherError string

definition Errorf :: "code \<Rightarrow> string \<Rightarrow> error" where
  "Errorf c msg = MidasError c msg"

definition is_ConfigError :: "error \<Rightarrow> bool" where
  "is_ConfigError e = (case e of MidasError c _ \<Rightarrow> c = ErrSiteConfig | _ \<Rightarrow> False)"

definition is_ConflictError :: "error \<Rightarrow> bool" where
  "is_ConflictError e = (case e of MidasError c _ \<Rightarrow> c = ErrInvalid | _ \<Rightarrow> False)"

section \<open>Package path of the Go library\<close>

text \<open>
  The synchronizer uses the slash-separated package \<^verbatim>\<open>path\<close>.  \<^verbatim>\<open>path.Clean\<close> is
  modelled on path elements: empty and \<open>.\<close> elements are dropped, \<open>..\<close> removes the
  element before it, is dropped at the root, and is kept at the start of a path that
  is not rooted; the empty result is \<open>.\<close>.
\<close>

fun split_slash :: "string \<Rightarrow> string list" where
  "split_slash [] = [[]]"
| "split_slash (c # cs) =
     (if c = CHR ''/'' then [] # split_slash cs
      else (case split_slash cs of e # es \<Rightarrow> (c # e) # es | [] \<Rightarrow> [[c]]))"

fun join_slash :: "string list \<Rightarrow> string" where
  "join_slash [] = []"
| "join_slash [e] = e"
| "join_slash (e # es) = e @ ''/'' @ join_slash es"

fun clean_elems :: "bool \<Rightarrow> string list \<Rightarrow> string list \<Rightarrow> string list" where
  "clean_elems rooted [] out = rev out"
| "clean_elems rooted (e # es) out =
     (if e = [] \<or> e = ''.'' then clean_elems rooted es out
      else if e = ''..'' then
        (case out of
           [] \<Rightarrow> if rooted then clean_elems rooted es [] else clean_elems rooted es [''..'']
         | t # ts \<Rightarrow> if t = ''..'' then clean_elems rooted es (''..'' # out)
                     else clean_elems rooted es ts)
      else clean_elems rooted es (e # out))"

definition IsAbs :: "string \<Rightarrow> bool" where
  "IsAbs p = (case p of [] \<Rightarrow> False | c # _ \<Rightarrow> c = CHR ''/'')"

definition Clean :: "string \<Rightarrow> string" where
  "Clean p =
     (if p = [] then ''.''
      else let r = join_slash (clean_elems (IsAbs p) (split_slash p) [])
           in if IsAbs p then CHR ''/'' # r else if r = [] then ''.'' else r)"

text \<open>\<^verbatim>\<open>path.Join\<close> of two elements: empty elements are ignored, the rest is cleaned.\<close>

definition Join :: "string \<Rightarrow> string \<Rightarrow> string" where
  "Join a b =
     (if a = [] \<and> b = [] then []
      else Clean (if a = [] then b else a @ ''/'' @ b))"

text \<open>\<^verbatim>\<open>path.Base\<close>: the last element, after trailing slashes are stripped.\<close>

definition strip_slashes :: "string \<Rightarrow> string" where
  "strip_slashes p = rev (dropWhile (\<lambda>c. c = CHR ''/'') (rev p))"

definition after_last_slash :: "string \<Rightarrow> string" where
  "after_last_slash p = rev (takeWhile (\<lambda>c. c \<noteq> CHR ''/'') (rev p))"

definition Base :: "string \<Rightarrow> string" where
  "Base p =
     (if p = [] then ''.''
      else let q = after_last_slash (strip_slashes p)
           in if q = [] then ''/'' else q)"

text \<open>\<^verbatim>\<open>path.Dir\<close>: everything up to the last slash, cleaned.\<close>

definition Dir :: "string \<Rightarrow> string" where
  "Dir p = Clean (rev (dropWhile (\<lambda>c. c \<noteq> CHR ''/'') (rev p)))"

section \<open>The filesystem seen by the synchronizer\<close>

text \<open>
  The disk is a map from path names to nodes.  What the model does not decide (rights,
  missing parents, a full disk) is left to two tables of the world: \<open>stat_fault\<close>
  makes \<^verbatim>\<open>os.Stat\<close> fail on a path with an error other than "no such file", and
  \<open>call_fault\<close> makes one of the other calls fail.  \<open>calls\<close> lists the calls that
  change the disk, in the order they were issued.  \<open>reg\<close> is the storage of the
  registry.
\<close>

datatype node = File string | Directory

datatype call = Mkdir string | Create string | Write string | Remove string | ReadFile string

record 'r world =
  nodes :: "string \<rightharpoonup> node"
  stat_fault :: "string \<rightharpoonup> fault"
  call_fault :: "call \<rightharpoonup> errno"
  calls :: "call list"
  reg :: 'r

definition os_Stat :: "'r world \<Rightarrow> string \<Rightarrow> errno option" where
  "os_Stat w name =
     (case stat_fault w name of
        Some f \<Rightarrow> Some (Fault f)
      | None \<Rightarrow> (case nodes w name of None \<Rightarrow> Some ENOENT | Some _ \<Rightarrow> None))"

text \<open>\<^verbatim>\<open>errors.Is(err, os.ErrNotExist)\<close>; it is false of the nil error.\<close>

definition is_ErrNotExist :: "errno option \<Rightarrow> bool" where
  "is_ErrNotExist err = (err = Some ENOENT)"

definition fileExists :: "'r world \<Rightarrow> string \<Rightarrow> bool" where
  "fileExists w filename = (let err = os_Stat w filename in \<not> is_ErrNotExist err)"

definition issue :: "call \<Rightarrow> 'r world \<Rightarrow> 'r world" where
  "issue c w = w\<lparr>calls := calls w @ [c]\<rparr>"

definition os_Mkdir :: "string \<Rightarrow> 'r world \<Rightarrow> error option \<times> 'r world" where
  "os_Mkdir name w =
     (case call_fault w (Mkdir name) of
        Some e \<Rightarrow> (Some (PathError ''mkdir'' name e), issue (Mkdir name) w)
      | None \<Rightarrow>
          (case nodes w name of
             Some _ \<Rightarrow> (Some (PathError ''mkdir'' name EEXIST), issue (Mkdir name) w)
           | None \<Rightarrow> (None, issue (Mkdir name) (w\<lparr>nodes := (nodes w)(name \<mapsto> Directory)\<rparr>))))"

text \<open>\<^verbatim>\<open>os.Create\<close> makes the file or truncates it.\<close>

definition os_Create :: "string \<Rightarrow> 'r world \<Rightarrow> error option \<times> 'r world" where
  "os_Create name w =
     (case call_fault w (Create name) of
        Some e \<Rightarrow> (Some (PathError ''open'' name e), issue (Create name) w)
      | None \<Rightarrow>
          (case nodes w name of
             Some Directory \<Rightarrow> (Some (PathError ''open'' name EISDIR), issue (Create name) w)
           | _ \<Rightarrow> (None, issue (Create name) (w\<lparr>nodes := (nodes w)(name \<mapsto> File [])\<rparr>))))"

definition os_Remove :: "string \<Rightarrow> 'r world \<Rightarrow> error option \<times> 'r world" where
  "os_Remove name w =
     (case call_fault w (Remove name) of
        Some e \<Rightarrow> (Some (PathError ''remove'' name e), issue (Remove name) w)
      | None \<Rightarrow>
          (case nodes w name of
             None \<Rightarrow> (Some (PathError ''remove'' name ENOENT), issue (Remove name) w)
           | Some _ \<Rightarrow> (None, issue (Remove name) (w\<lparr>nodes := (nodes w)(name := None)\<rparr>))))"

section \<open>What the synchronizer takes from outside\<close>

text \<open>
  Modelled from the spec: \<^verbatim>\<open>midas.CreateSlug\<close> is declared in the root package of the
  repository, which is not among the sources; the spec says that the slug is a pure
  deterministic function of the title, so it is a parameter here.  The parser and the
  interpreter of \<^verbatim>\<open>html/template\<close> are parameters as well: \<open>tmpl_parse\<close> says
  whether a text is a template, \<open>tmpl_exec\<close> gives the bytes an execution writes
  and the error it ends with.
\<close>

record library =
  CreateSlug :: "string \<Rightarrow> string"
  tmpl_parse :: "string \<Rightarrow> error option"
  tmpl_exec :: "string \<Rightarrow> (string \<rightharpoonup> go_value) \<Rightarrow> string \<times> error option"

text \<open>\<^verbatim>\<open>template.ParseFiles\<close> reads the file and parses it.\<close>

definition ParseFiles :: "library \<Rightarrow> 'r world \<Rightarrow> string \<Rightarrow> error + string" where
  "ParseFiles lib w name =
     (case call_fault w (ReadFile name) of
        Some e \<Rightarrow> Inl (PathError ''open'' name e)
      | None \<Rightarrow>
          (case nodes w name of
             None \<Rightarrow> Inl (PathError ''open'' name ENOENT)
           | Some Directory \<Rightarrow> Inl (PathError ''read'' name EISDIR)
           | Some (File text) \<Rightarrow>
               (case tmpl_parse lib text of Some e \<Rightarrow> Inl e | None \<Rightarrow> Inr text)))"

text \<open>
  \<^verbatim>\<open>tmpl.Execute(output, data)\<close> on the file just created at \<open>name\<close>: what the
  execution writes is in the file afterwards, also when it ends with an error.
\<close>

definition Execute ::
  "library \<Rightarrow> string \<Rightarrow> string \<Rightarrow> (string \<rightharpoonup> go_value) \<Rightarrow> 'r world \<Rightarrow> error option \<times> 'r world" where
  "Execute lib tmpl name data w =
     (case call_fault w (Write name) of
        Some e \<Rightarrow> (Some (PathError ''write'' name e), issue (Write name) w)
      | None \<Rightarrow>
          (let (text, err) = tmpl_exec lib tmpl data
           in (err, issue (Write name) (w\<lparr>nodes := (nodes w)(name \<mapsto> File text)\<rparr>))))"

text \<open>
  Modelled from the spec: the interface \<^verbatim>\<open>midas.RegistryService\<close> is declared in the root
  package of the repository, and no implementation is among the sources; section 6 of
  the spec lists its operations.  A service is a record of operations on a storage
  \<open>'r\<close>.
\<close>

record 'r RegistryService =
  reg_CreateEntry :: "string \<Rightarrow> string \<Rightarrow> 'r \<Rightarrow> error option \<times> 'r"
  reg_ReadEntry :: "string \<Rightarrow> 'r \<Rightarrow> string \<times> error option"
  reg_UpdateEntry :: "string \<Rightarrow> string \<Rightarrow> 'r \<Rightarrow> error option \<times> 'r"
  reg_Flush :: "'r \<Rightarrow> error option \<times> 'r"

text \<open>
  Modelled from the spec: \<^verbatim>\<open>midas.Site\<close> and \<^verbatim>\<open>midas.Model\<close> are declared in the root
  package of the repository; section 3 of the spec and the fields the code reads give
  their shape.
\<close>

record Model =
  ArchetypePath :: string
  OutputDir :: string

record SiteConfig =
  RootDir :: string
  Build :: string
  CollectionTypes :: "string \<rightharpoonup> Model"
  SingleTypes :: "string \<rightharpoonup> Model"

section \<open>Package hugo: the site service\<close>

record 'r SiteService =
  Site :: SiteConfig
  registry :: "'r RegistryService"

text \<open>The pointer returned by \<open>getModel\<close> is nil when neither table has the name.\<close>

definition getModel :: "'r SiteService \<Rightarrow> string \<Rightarrow> Model option \<times> bool" where
  "getModel s model =
     (case CollectionTypes (Site s) model of
        Some m \<Rightarrow> (Some m, False)
      | None \<Rightarrow>
          (case SingleTypes (Site s) model of
             Some m \<Rightarrow> (Some m, True)
           | None \<Rightarrow> (None, True)))"

text \<open>
  The three registry calls at the end of \<open>CreateEntry\<close> and \<open>UpdateEntry\<close>, on the
  world: the storage is replaced by what the call leaves.
\<close>

definition registry_CreateEntry ::
  "'r SiteService \<Rightarrow> string \<Rightarrow> string \<Rightarrow> 'r world \<Rightarrow> error option \<times> 'r world" where
  "registry_CreateEntry s entryId outputPath w =
     (let (err, r) = reg_CreateEntry (registry s) entryId outputPath (reg w) in (err, w\<lparr>reg := r\<rparr>))"

definition registry_UpdateEntry ::
  "'r SiteService \<Rightarrow> string \<Rightarrow> string \<Rightarrow> 'r world \<Rightarrow> error option \<times> 'r world" where
  "registry_UpdateEntry s entryId outputPath w =
     (let (err, r) = reg_UpdateEntry (registry s) entryId outputPath (reg w) in (err, w\<lparr>reg := r\<rparr>))"

definition registry_Flush :: "'r SiteService \<Rightarrow> 'r world \<Rightarrow> error option \<times> 'r world" where
  "registry_Flush s w = (let (err, r) = reg_Flush (registry s) (reg w) in (err, w\<lparr>reg := r\<rparr>))"

text \<open>
  \<open>CreateEntry\<close> returns a path and an error, or panics; the world it leaves is the
  second component.
\<close>

definition CreateEntry ::
  "library \<Rightarrow> 'r SiteService \<Rightarrow> payload \<Rightarrow> 'r world \<Rightarrow> (string \<times> error option) exec \<times> 'r world" where
  "CreateEntry lib s payload w =
     (case assert_string (index (Metadata payload) ''model'') of
        Panic x \<Rightarrow> (Panic x, w)
      | Done modelName \<Rightarrow>
     (case fst (getModel s modelName) of
        None \<Rightarrow> (Panic NilPointerDereference, w)
      | Some model \<Rightarrow>
     (let archetypePath =
            (if \<not> IsAbs (ArchetypePath model) then Join (RootDir (Site s)) (ArchetypePath model)
             else ArchetypePath model);
          outputDir =
            (if \<not> IsAbs (OutputDir model) then Join (RootDir (Site s)) (OutputDir model)
             else OutputDir model)
      in
      if \<not> fileExists w archetypePath then
        (Done ([], Some (Errorf ErrSiteConfig
            (''archetype for model '' @ modelName @ '' does not exist''))), w)
      else
     (case (if \<not> fileExists w outputDir then os_Mkdir outputDir w else (None, w)) of
        (Some err, w1) \<Rightarrow> (Done ([], Some err), w1)
      | (None, w1) \<Rightarrow>
     (let title = fmt_v (index (Entry payload) ''Title'');
          slug = CreateSlug lib title;
          outputPath = Join outputDir (slug @ ''.html'')
      in
      if fileExists w1 outputPath then
        (Done ([], Some (Errorf ErrInvalid
            (''output file '' @ Base outputPath @ '' already exists''))), w1)
      else
     (case ParseFiles lib w1 archetypePath of
        Inl err \<Rightarrow> (Done ([], Some err), w1)
      | Inr tmpl \<Rightarrow>
     (case os_Create outputPath w1 of
        (Some err, w2) \<Rightarrow> (Done ([], Some err), w2)
      | (None, w2) \<Rightarrow>
     (case Execute lib tmpl outputPath (Entry payload) w2 of
        (Some err, w3) \<Rightarrow> (Done ([], Some err), w3)
      | (None, w3) \<Rightarrow>
     (case EntryId payload of
        Panic x \<Rightarrow> (Panic x, w3)
      | Done entryId \<Rightarrow>
     (case registry_CreateEntry s entryId outputPath w3 of
        (Some err, w4) \<Rightarrow> (Done (outputPath, Some err), w4)
      | (None, w4) \<Rightarrow>
     (case registry_Flush s w4 of
        (Some err, w5) \<Rightarrow> (Done (outputPath, Some err), w5)
      | (None, w5) \<Rightarrow> (Done (outputPath, None), w5))))))))))))"

text \<open>
  \<open>UpdateEntry\<close>.  The error of \<^verbatim>\<open>ReadEntry\<close> is dropped by the code; the removal of
  the old file is attempted when \<open>fileExists\<close> says it is there, and its error is
  dropped too.
\<close>

definition UpdateEntry ::
  "library \<Rightarrow> 'r SiteService \<Rightarrow> payload \<Rightarrow> 'r world \<Rightarrow> (string \<times> error option) exec \<times> 'r world" where
  "UpdateEntry lib s payload w =
     (case assert_string (index (Metadata payload) ''model'') of
        Panic x \<Rightarrow> (Panic x, w)
      | Done modelName \<Rightarrow>
     (case fst (getModel s modelName) of
        None \<Rightarrow> (Panic NilPointerDereference, w)
      | Some model \<Rightarrow>
     (let archetypePath =
            (if \<not> IsAbs (ArchetypePath model) then Join (RootDir (Site s)) (ArchetypePath model)
             else ArchetypePath model)
      in
      if \<not> fileExists w archetypePath then
        (Done ([], Some (Errorf ErrSiteConfig
            (''archetype for model '' @ modelName @ '' does not exist''))), w)
      else
     (case EntryId payload of
        Panic x \<Rightarrow> (Panic x, w)
      | Done entryId \<Rightarrow>
     (let oldPath = fst (reg_ReadEntry (registry s) entryId (reg w));
          outputDir = Dir oldPath
      in
     (case (if \<not> fileExists w outputDir then os_Mkdir outputDir w else (None, w)) of
        (Some err, w1) \<Rightarrow> (Done ([], Some err), w1)
      | (None, w1) \<Rightarrow>
     (let title = fmt_v (index (Entry payload) ''Title'');
          slug = CreateSlug lib title;
          outputPath = Join outputDir (slug @ ''.html'')
      in
      if fileExists w1 outputPath \<and> Base outputPath \<noteq> Base oldPath then
        (Done ([], Some (Errorf ErrInvalid
            (''output file '' @ Base outputPath @ '' already exists''))), w1)
      else
     (let w2 = (if fileExists w1 oldPath then snd (os_Remove oldPath w1) else w1)
      in
     (case ParseFiles lib w2 archetypePath of
        Inl err \<Rightarrow> (Done ([], Some err), w2)
      | Inr tmpl \<Rightarrow>
     (case os_Create outputPath w2 of
        (Some err, w3) \<Rightarrow> (Done ([], Some err), w3)
      | (None, w3) \<Rightarrow>
     (case Execute lib tmpl outputPath (Entry payload) w3 of
        (Some err, w4) \<Rightarrow> (Done ([], Some err), w4)
      | (None, w4) \<Rightarrow>
     (case registry_UpdateEntry s entryId outputPath w4 of
        (Some err, w5) \<Rightarrow> (Done (outputPath, Some err), w5)
      | (None, w5) \<Rightarrow>
     (case registry_Flush s w5 of
        (Some err, w6) \<Rightarrow> (Done (outputPath, Some err), w6)
      | (None, w6) \<Rightarrow> (Done (outputPath, None), w6))))))))))))))"

section \<open>Names used in the statements about the site service\<close>

text \<open>
  \<open>resolve\<close> is the path the code takes for a configured path (joined to the root
  directory unless absolute), \<open>outputFile\<close> the file name it derives from the title,
  \<open>ensureDir\<close> its block "check if output dir exists, attempt to create it if it
  doesn't", \<open>conflict\<close> the error of its collision check.
\<close>

definition resolve :: "string \<Rightarrow> string \<Rightarrow> string" where
  "resolve root p = (if \<not> IsAbs p then Join root p else p)"

definition outputFile :: "library \<Rightarrow> payload \<Rightarrow> string" where
  "outputFile lib p = CreateSlug lib (fmt_v (index (Entry p) ''Title'')) @ ''.html''"

definition ensureDir :: "string \<Rightarrow> 'r world \<Rightarrow> error option \<times> 'r world" where
  "ensureDir d w = (if \<not> fileExists w d then os_Mkdir d w else (None, w))"

definition conflict :: "string \<Rightarrow> error" where
  "conflict outputPath = Errorf ErrInvalid (''output file '' @ Base outputPath @ '' already exists'')"

text \<open>
  A small site for the concrete runs: one collection type \<open>post\<close>, its archetype
  and output directory on disk, a registry kept in a map whose \<open>CreateEntry\<close>,
  \<open>UpdateEntry\<close> and \<open>Flush\<close> fail when told to, a slug function that puts a hyphen
  for each space, and a template interpreter that writes the template followed by the
  title.
\<close>

definition slug_example :: "string \<Rightarrow> string" where
  "slug_example title = map (\<lambda>c. if c = CHR '' '' then CHR ''-'' else c) title"

definition lib_example :: library where
  "lib_example =
     \<lparr>CreateSlug = slug_example,
      tmpl_parse = (\<lambda>text. None),
      tmpl_exec = (\<lambda>tmpl data. (tmpl @ fmt_v (index data ''Title''), None))\<rparr>"

definition registry_example ::
  "error option \<Rightarrow> error option \<Rightarrow> (string \<rightharpoonup> string) RegistryService" where
  "registry_example mutate_fault flush_fault =
     \<lparr>reg_CreateEntry = (\<lambda>entryId path r.
        case mutate_fault of Some e \<Rightarrow> (Some e, r) | None \<Rightarrow> (None, r(entryId \<mapsto> path))),
      reg_ReadEntry = (\<lambda>entryId r.
        case r entryId of Some path \<Rightarrow> (path, None) | None \<Rightarrow> ([], Some (OtherError ''no entry''))),
      reg_UpdateEntry = (\<lambda>entryId path r.
        case mutate_fault of Some e \<Rightarrow> (Some e, r) | None \<Rightarrow> (None, r(entryId \<mapsto> path))),
      reg_Flush = (\<lambda>r. (flush_fault, r))\<rparr>"

definition site_example :: SiteConfig where
  "site_example =
     \<lparr>RootDir = ''/site'', Build = [],
      CollectionTypes = [''post'' \<mapsto> \<lparr>ArchetypePath = ''archetypes/post.html'', OutputDir = ''content/posts''\<rparr>],
      SingleTypes = Map.empty\<rparr>"

definition service_example ::
  "error option \<Rightarrow> error option \<Rightarrow> (string \<rightharpoonup> string) SiteService" where
  "service_example mutate_fault flush_fault =
     \<lparr>Site = site_example, registry = registry_example mutate_fault flush_fault\<rparr>"

definition world_example :: "(string \<rightharpoonup> string) world" where
  "world_example =
     \<lparr>nodes = [''/site/archetypes/post.html'' \<mapsto> File ''<h1>'',
               ''/site/content/posts'' \<mapsto> Directory],
      stat_fault = Map.empty, call_fault = Map.empty, calls = [], reg = Map.empty\<rparr>"

definition payload_example :: "string \<Rightarrow> string \<Rightarrow> payload" where
  "payload_example model title =
     \<lparr>Metadata = [''model'' \<mapsto> GoString model],
      Entry = [''Title'' \<mapsto> GoString title, ''id'' \<mapsto> GoInt 5]\<rparr>"

text \<open>
  \<open>world_two\<close>: the entry \<open>post-5\<close> is registered at its file, and a second file
  lies beside it.  \<open>world_denied\<close>: the entry is registered, its file is not on the
  disk, and \<^verbatim>\<open>os.Stat\<close> on that path fails with "permission denied".
\<close>

definition world_two :: "(string \<rightharpoonup> string) world" where
  "world_two =
     \<lparr>nodes = [''/site/archetypes/post.html'' \<mapsto> File ''<h1>'',
               ''/site/content/posts'' \<mapsto> Directory,
               ''/site/content/posts/Hello-World.html'' \<mapsto> File ''<h1>Hello World'',
               ''/site/content/posts/Other.html'' \<mapsto> File ''<h1>Other''],
      stat_fault = Map.empty, call_fault = Map.empty, calls = [],
      reg = [''post-5'' \<mapsto> ''/site/content/posts/Hello-World.html'']\<rparr>"

definition world_denied :: "(string \<rightharpoonup> string) world" where
  "world_denied =
     \<lparr>nodes = [''/site/archetypes/post.html'' \<mapsto> File ''<h1>'',
               ''/site/content/posts'' \<mapsto> Directory],
      stat_fault = [''/site/content/posts/Hello-World.html'' \<mapsto> EACCES],
      call_fault = Map.empty, calls = [],
      reg = [''post-5'' \<mapsto> ''/site/content/posts/Hello-World.html'']\<rparr>"

section \<open>Package aws: the deployment\<close>

text \<open>
  The deployment uses the package \<^verbatim>\<open>path/filepath\<close>, whose separators depend on the
  target system: the slash, and on Windows the backslash as well.
\<close>

datatype goos = Unix | Windows

definition backslash :: char where
  "backslash = CHR 0x5C"

definition IsPathSeparator :: "goos \<Rightarrow> char \<Rightarrow> bool" where
  "IsPathSeparator os c = (c = CHR ''/'' \<or> (os = Windows \<and> c = backslash))"

text \<open>
  \<^verbatim>\<open>filepath.Ext\<close> walks back from the end of the name until a separator and returns
  the suffix that starts at the first dot it meets, or the empty string.  \<open>ext_scan\<close>
  takes the reversed name and the characters already passed.
\<close>

fun ext_scan :: "goos \<Rightarrow> string \<Rightarrow> string \<Rightarrow> string" where
  "ext_scan os [] acc = []"
| "ext_scan os (c # cs) acc =
     (if IsPathSeparator os c then []
      else if c = CHR ''.'' then c # acc
      else ext_scan os cs (c # acc))"

definition Ext :: "goos \<Rightarrow> string \<Rightarrow> string" where
  "Ext os path = ext_scan os (rev path) []"

definition typeByExtension :: "(string \<times> string) list" where
  "typeByExtension =
     [(''.html'', ''text/html''),
      (''.css'', ''text/css''),
      (''.xml'', ''text/xml''),
      (''.js'', ''application/javascript''),
      (''.pdf'', ''application/pdf''),
      (''.png'', ''image/png''),
      (''.jpg'', ''image/jpeg''),
      (''.jpeg'', ''image/jpeg''),
      (''.gif'', ''image/gif''),
      (''.svg'', ''image/svg+xml''),
      (''.webp'', ''image/webp''),
      (''.webm'', ''video/webm''),
      (''.mp4'', ''video/mp4''),
      (''.ogv'', ''video/ogg''),
      (''.avi'', ''video/x-msvideo''),
      (''.ogg'', ''audio/ogg''),
      (''.mp3'', ''audio/mpeg''),
      (''.mpeg'', ''audio/mpeg'')]"

definition getFileContentType :: "goos \<Rightarrow> string \<Rightarrow> string" where
  "getFileContentType os fileName =
     (let extension = Ext os fileName
      in case map_of typeByExtension extension of
           Some contentType \<Rightarrow> contentType
         | None \<Rightarrow> ''application/octet-stream'')"

text \<open>
  \<^verbatim>\<open>strings.ReplaceAll(s, old, new)\<close> for an \<open>old\<close> of one byte, as in its one call
  here.
\<close>

definition ReplaceAll :: "string \<Rightarrow> char \<Rightarrow> string \<Rightarrow> string" where
  "ReplaceAll s old new = concat (map (\<lambda>c. if c = old then new else [c]) s)"

text \<open>
  Modelled from the spec: \<^verbatim>\<open>midas.DeploymentSettings\<close> is declared in the root package
  of the repository; section 6 of the spec lists its fields, which the code reads
  under \<^verbatim>\<open>AWS\<close>.
\<close>

record AWSSettings =
  BucketName :: string
  Region :: string
  AccessKey :: string
  SecretKey :: string
  S3Prefix :: string

record DeploymentSettings =
  AWS :: AWSSettings

record Deployment =
  site :: SiteConfig
  deploymentSettings :: DeploymentSettings
  publicPath :: string

text \<open>
  The request of one upload, and the bucket as the deployment sees it: the requests
  made so far, in order, and the objects stored, by bucket and key.
\<close>

record PutObjectInput =
  Bucket :: string
  Key :: string
  Body :: string
  ContentType :: string

record s3 =
  attempts :: "PutObjectInput list"
  objects :: "string \<times> string \<rightharpoonup> PutObjectInput"

text \<open>
  What the deployment takes from outside.  \<open>visits\<close> gives, for a root, the calls
  \<^verbatim>\<open>filepath.Walk\<close> makes to its function in order (path, whether the entry is a
  directory, the error met on it), as long as the function returns nil.  The other
  fields are the result of loading the SDK configuration, \<^verbatim>\<open>filepath.Rel\<close>,
  the error of \<^verbatim>\<open>os.Open\<close> on a path, and the error of an upload.
\<close>

record visit =
  vpath :: string
  vdir :: bool
  verr :: "error option"

record aws_env =
  GOOS :: goos
  visits :: "string \<Rightarrow> visit list"
  LoadDefaultConfig :: "error option"
  filepath_Rel :: "string \<Rightarrow> string \<Rightarrow> error + string"
  os_Open :: "string \<Rightarrow> error option"
  uploader_Upload :: "PutObjectInput \<Rightarrow> error option"

text \<open>
  \<open>fileWalk\<close> is a channel of strings; the model keeps the values sent on it, in
  order.  \<open>Walk\<close> is the function handed to \<^verbatim>\<open>filepath.Walk\<close>: it reads \<open>info\<close>
  only when \<open>err\<close> is nil.
\<close>

type_synonym fileWalk = "string list"

definition Walk :: "fileWalk \<Rightarrow> string \<Rightarrow> bool \<Rightarrow> error option \<Rightarrow> error option \<times> fileWalk" where
  "Walk f path info_IsDir err =
     (case err of
        Some e \<Rightarrow> (Some e, f)
      | None \<Rightarrow> if info_IsDir then (None, f) else (None, f @ [path]))"

text \<open>\<^verbatim>\<open>filepath.Walk\<close> stops at the first error its function returns, and returns it.\<close>

fun filepath_Walk :: "visit list \<Rightarrow> fileWalk \<Rightarrow> error option \<times> fileWalk" where
  "filepath_Walk [] f = (None, f)"
| "filepath_Walk (v # vs) f =
     (case Walk f (vpath v) (vdir v) (verr v) of
        (Some e, f') \<Rightarrow> (Some e, f')
      | (None, f') \<Rightarrow> filepath_Walk vs f')"

text \<open>
  \<open>retrieveFiles\<close> starts a goroutine that walks the public directory, sends on the
  channel, and ends by closing the channel or, when the walk returns an error, by
  \<^verbatim>\<open>panic(err)\<close>.  The model returns what the goroutine does over its whole life: the
  error it panics with, if any, and the values it sends.  The error that
  \<open>retrieveFiles\<close> returns to \<open>Deploy\<close> is always nil.
\<close>

definition retrieveFiles :: "Deployment \<Rightarrow> aws_env \<Rightarrow> error option \<times> fileWalk" where
  "retrieveFiles d env = filepath_Walk (visits env (publicPath d)) []"

definition uploadFile_input :: "Deployment \<Rightarrow> aws_env \<Rightarrow> string \<Rightarrow> string \<Rightarrow> PutObjectInput" where
  "uploadFile_input d env file_Name rel =
     (let fileKey = rel;
          fileKey = (if S3Prefix (AWS (deploymentSettings d)) \<noteq> []
                     then S3Prefix (AWS (deploymentSettings d)) @ ''/'' @ rel else fileKey);
          fileKey = ReplaceAll fileKey backslash ''/'';
          contentType = getFileContentType (GOOS env) file_Name
      in \<lparr>Bucket = BucketName (AWS (deploymentSettings d)), Key = fileKey,
          Body = file_Name, ContentType = contentType\<rparr>)"

definition uploadFile :: "Deployment \<Rightarrow> aws_env \<Rightarrow> string \<Rightarrow> string \<Rightarrow> s3 \<Rightarrow> error option \<times> s3" where
  "uploadFile d env file_Name rel s =
     (let input = uploadFile_input d env file_Name rel
      in case uploader_Upload env input of
           Some err \<Rightarrow> (Some err, s\<lparr>attempts := attempts s @ [input]\<rparr>)
         | None \<Rightarrow>
             (None, s\<lparr>attempts := attempts s @ [input],
                      objects := (objects s)((Bucket input, Key input) \<mapsto> input)\<rparr>))"

text \<open>The function literal that is the body of the loop of \<open>Deploy\<close>.\<close>

definition loop_body :: "Deployment \<Rightarrow> aws_env \<Rightarrow> string \<Rightarrow> s3 \<Rightarrow> error option \<times> s3" where
  "loop_body d env path s =
     (case filepath_Rel env (publicPath d) path of
        Inl err \<Rightarrow> (Some err, s)
      | Inr rel \<Rightarrow>
          (case os_Open env path of
             Some err \<Rightarrow> (Some err, s)
           | None \<Rightarrow> uploadFile d env path rel s))"

text \<open>
  \<open>Deploy\<close> either returns an error (or nil), or the process of which it is part is
  ended by the panic of the walker goroutine: \<open>Crashed e\<close> stands for every run in
  which that goroutine reaches \<^verbatim>\<open>panic(e)\<close>, whatever \<open>Deploy\<close> is doing then.

  The channel has no buffer, so the goroutine is one send ahead of the loop at most.
  It reaches its panic only once every value it has sent has been received: while the
  loop handles the last value.  Which of the two comes first is not fixed by the
  code, and the schedule says it: with \<open>PanicFirst\<close> the process ends before the last
  file is handled, with \<open>ConsumerFirst\<close> after.  A loop that returns early leaves the
  goroutine blocked in its next send for ever.
\<close>

datatype outcome = Returned "error option" | Crashed error

datatype schedule = PanicFirst | ConsumerFirst

fun range_walker ::
  "Deployment \<Rightarrow> aws_env \<Rightarrow> schedule \<Rightarrow> fileWalk \<Rightarrow> error option \<Rightarrow> s3 \<Rightarrow> outcome \<times> s3" where
  "range_walker d env sch [] None s = (Returned None, s)"
| "range_walker d env sch [] (Some e) s = (Crashed e, s)"
| "range_walker d env sch [path] (Some e) s =
     (case sch of
        PanicFirst \<Rightarrow> (Crashed e, s)
      | ConsumerFirst \<Rightarrow> (Crashed e, snd (loop_body d env path s)))"
| "range_walker d env sch (path # rest) walk_err s =
     (case loop_body d env path s of
        (Some err, s') \<Rightarrow> (Returned (Some err), s')
      | (None, s') \<Rightarrow> range_walker d env sch rest walk_err s')"

definition Deploy :: "Deployment \<Rightarrow> aws_env \<Rightarrow> schedule \<Rightarrow> s3 \<Rightarrow> outcome \<times> s3" where
  "Deploy d env sch s =
     (let (walk_err, walker) = retrieveFiles d env
      in case (walker, walk_err) of
           ([], Some e) \<Rightarrow> (Crashed e, s)
         | _ \<Rightarrow>
             (case LoadDefaultConfig env of
                Some err \<Rightarrow> (Returned (Some err), s)
              | None \<Rightarrow> range_walker d env sch walker walk_err s))"

section \<open>Names used in the statements about the deployment\<close>

text \<open>
  The storage key and the content types in the words of the spec: the key is the
  prefix and a slash, if there is a prefix, and the relative path, with every backslash
  turned into a slash; the table of content types is the one of its section 6.
\<close>

definition normalize_separators :: "string \<Rightarrow> string" where
  "normalize_separators s = map (\<lambda>c. if c = backslash then CHR ''/'' else c) s"

definition spec_key :: "string \<Rightarrow> string \<Rightarrow> string" where
  "spec_key prefix relativePath =
     normalize_separators ((if prefix \<noteq> [] then prefix @ ''/'' else []) @ relativePath)"

definition spec_content_types :: "(string \<times> string) list" where
  "spec_content_types =
     [(''.html'', ''text/html''), (''.css'', ''text/css''), (''.xml'', ''text/xml''),
      (''.js'', ''application/javascript''), (''.pdf'', ''application/pdf''),
      (''.png'', ''image/png''), (''.jpg'', ''image/jpeg''), (''.jpeg'', ''image/jpeg''),
      (''.gif'', ''image/gif''), (''.svg'', ''image/svg+xml''), (''.webp'', ''image/webp''),
      (''.webm'', ''video/webm''), (''.mp4'', ''video/mp4''), (''.ogv'', ''video/ogg''),
      (''.avi'', ''video/x-msvideo''), (''.ogg'', ''audio/ogg''), (''.mp3'', ''audio/mpeg''),
      (''.mpeg'', ''audio/mpeg'')]"

definition s3_empty :: s3 where
  "s3_empty = \<lparr>attempts = [], objects = Map.empty\<rparr>"

text \<open>
  A deployment for the concrete runs: prefix \<open>assets\<close>, the public directory
  \<open>/site/public\<close>, a \<^verbatim>\<open>filepath.Rel\<close> that strips the root, and uploads that fail
  for the listed keys.
\<close>

definition deployment_example :: "string \<Rightarrow> Deployment" where
  "deployment_example prefix =
     \<lparr>site = site_example,
      deploymentSettings = \<lparr>AWS = \<lparr>BucketName = ''bucket'', Region = ''eu-west-1'',
        AccessKey = ''key'', SecretKey = ''secret'', S3Prefix = prefix\<rparr>\<rparr>,
      publicPath = ''/site/public''\<rparr>"

definition rel_example :: "string \<Rightarrow> string \<Rightarrow> error + string" where
  "rel_example basepath targpath =
     (if take (length basepath + 1) targpath = basepath @ ''/''
      then Inr (drop (length basepath + 1) targpath)
      else Inl (OtherError ''Rel: cannot make relative''))"

definition env_example :: "visit list \<Rightarrow> string list \<Rightarrow> aws_env" where
  "env_example vs failing_keys =
     \<lparr>GOOS = Unix,
      visits = (\<lambda>root. vs),
      LoadDefaultConfig = None,
      filepath_Rel = rel_example,
      os_Open = (\<lambda>path. None),
      uploader_Upload = (\<lambda>input.
        if Key input \<in> set failing_keys then Some (OtherError (''upload failed: '' @ Key input))
        else None)\<rparr>"

definition visits_example :: "visit list" where
  "visits_example =
     [\<lparr>vpath = ''/site/public'', vdir = True, verr = None\<rparr>,
      \<lparr>vpath = ''/site/public/index.html'', vdir = False, verr = None\<rparr>,
      \<lparr>vpath = ''/site/public/img'', vdir = True, verr = None\<rparr>,
      \<lparr>vpath = ''/site/public/img/a.png'', vdir = False, verr = None\<rparr>,
      \<lparr>vpath = ''/site/public/img/b.unknown'', vdir = False, verr = None\<rparr>]"



section \<open>Properties\<close>

subsection \<open>Decimal formatting\<close>

lemma digit_value_digit: "n < 10 \<Longrightarrow> digit_value (digit n) = n"
  by (simp add: digit_value_def digit_def)

lemma decimal_value_snoc:
  "decimal_value (s @ [c]) = 10 * decimal_value s + digit_value c"
  by (simp add: decimal_value_def)

lemma decimal_value_decimal: "decimal_value (decimal n) = n"
proof (induction n rule: decimal.induct)
  case (1 n)
  show ?case
  proof (cases "n < 10")
    case True
    then have "decimal n = [digit n]"
      by (subst decimal.simps) simp
    with True show ?thesis
      by (simp add: decimal_value_def digit_value_digit)
  next
    case False
    then have "decimal n = decimal (n div 10) @ [digit (n mod 10)]"
      by (subst decimal.simps) simp
    with False "1" show ?thesis
      by (simp add: decimal_value_snoc digit_value_digit)
  qed
qed

lemma decimal_not_Nil: "decimal n \<noteq> []"
  by (subst decimal.simps) simp

lemma digit_not_minus: "n < 10 \<Longrightarrow> digit n \<noteq> CHR ''-''"
proof
  assume "n < 10" and "digit n = CHR ''-''"
  then have "of_char (digit n) = (of_char (CHR ''-'') :: nat)"
    by simp
  with \<open>n < 10\<close> show False
    by (simp add: digit_def)
qed

lemma hd_decimal_not_minus: "hd (decimal n) \<noteq> CHR ''-''"
proof (induction n rule: decimal.induct)
  case (1 n)
  show ?case
  proof (cases "n < 10")
    case True
    then show ?thesis
      by (subst decimal.simps) (simp add: digit_not_minus)
  next
    case False
    then have "decimal n = decimal (n div 10) @ [digit (n mod 10)]"
      by (subst decimal.simps) simp
    with False "1" show ?thesis
      by (simp add: decimal_not_Nil)
  qed
qed

lemma int_value_fmt_d: "int_value (fmt_d i) = i"
proof (cases "i < 0")
  case True
  then show ?thesis
    by (simp add: int_value_def fmt_d_def decimal_value_decimal)
next
  case False
  obtain c cs where d: "decimal (nat i) = c # cs"
    using decimal_not_Nil [of "nat i"] by (cases "decimal (nat i)") auto
  have "c \<noteq> CHR ''-''"
    using hd_decimal_not_minus [of "nat i"] d by simp
  moreover have "decimal_value (c # cs) = nat i"
    using decimal_value_decimal [of "nat i"] d by simp
  ultimately show ?thesis
    using False d by (simp add: int_value_def fmt_d_def)
qed

subsection \<open>EntryId\<close>

text \<open>
  C6.  For a payload whose metadata holds a string under \<open>model\<close> and whose entry holds
  an integer under \<open>id\<close>, \<open>EntryId\<close> returns (it does not panic) the model name, a
  hyphen, and the decimal numeral of the id: the numeral reads back as the id.  The
  result is a function of these two fields alone, so it is the same at every call.
\<close>

theorem EntryId_format:
  assumes "Metadata p ''model'' = Some (GoString m)"
    and "Entry p ''id'' = Some (GoInt i)"
  shows "EntryId p = Done (m @ ''-'' @ fmt_d (sint i)) \<and> int_value (fmt_d (sint i)) = sint i"
  using assms by (simp add: EntryId_def index_def assert_string_def assert_int_def int_value_fmt_d)

text \<open>
  The payload of model \<open>post\<close> and id 5 has the entry id \<open>post-5\<close>.
\<close>

theorem EntryId_format_witness:
  "EntryId \<lparr>Metadata = [''model'' \<mapsto> GoString ''post''],
            Entry = [''Title'' \<mapsto> GoString ''Hello'', ''id'' \<mapsto> GoInt 5]\<rparr> = Done ''post-5''"
proof -
  have five: "fmt_d (sint (5 :: 64 word)) = ''5''"
    by code_simp
  show ?thesis
    using EntryId_format [of "\<lparr>Metadata = [''model'' \<mapsto> GoString ''post''],
            Entry = [''Title'' \<mapsto> GoString ''Hello'', ''id'' \<mapsto> GoInt 5]\<rparr>" "''post''" 5]
    unfolding five by simp
qed

subsection \<open>How the calls change the world\<close>

lemma pair_fstI: "fst x = a \<Longrightarrow> x = (a, snd x)"
  by (cases x) simp

lemma stat_fault_fileExists: "stat_fault w name = Some f \<Longrightarrow> fileExists w name"
  by (simp add: fileExists_def os_Stat_def is_ErrNotExist_def)

lemma fileExists_iff:
  "fileExists w name \<longleftrightarrow> stat_fault w name \<noteq> None \<or> nodes w name \<noteq> None"
  by (auto simp: fileExists_def os_Stat_def is_ErrNotExist_def split: option.splits)

lemma registry_CreateEntry_world:
  "registry_CreateEntry s i path w = (err, w') \<Longrightarrow>
     nodes w' = nodes w \<and> stat_fault w' = stat_fault w \<and> call_fault w' = call_fault w \<and> calls w' = calls w"
  by (auto simp: registry_CreateEntry_def split: prod.splits)

lemma registry_UpdateEntry_world:
  "registry_UpdateEntry s i path w = (err, w') \<Longrightarrow>
     nodes w' = nodes w \<and> stat_fault w' = stat_fault w \<and> call_fault w' = call_fault w \<and> calls w' = calls w"
  by (auto simp: registry_UpdateEntry_def split: prod.splits)

lemma registry_Flush_world:
  "registry_Flush s w = (err, w') \<Longrightarrow>
     nodes w' = nodes w \<and> stat_fault w' = stat_fault w \<and> call_fault w' = call_fault w \<and> calls w' = calls w"
  by (auto simp: registry_Flush_def split: prod.splits)

lemma os_Mkdir_world:
  "os_Mkdir d w = (None, w') \<Longrightarrow>
     nodes w d = None \<and> nodes w' = (nodes w)(d \<mapsto> Directory) \<and> stat_fault w' = stat_fault w \<and>
     call_fault w' = call_fault w \<and> reg w' = reg w \<and> calls w' = calls w @ [Mkdir d]"
  by (auto simp: os_Mkdir_def issue_def split: option.splits)

lemma os_Create_world:
  "os_Create name w = (None, w') \<Longrightarrow>
     nodes w' = (nodes w)(name \<mapsto> File []) \<and> stat_fault w' = stat_fault w \<and>
     call_fault w' = call_fault w \<and> reg w' = reg w \<and> calls w' = calls w @ [Create name]"
  by (auto simp: os_Create_def issue_def split: option.splits node.splits)

lemma Execute_world:
  "Execute lib tmpl name data w = (None, w') \<Longrightarrow>
     nodes w' = (nodes w)(name \<mapsto> File (fst (tmpl_exec lib tmpl data))) \<and> stat_fault w' = stat_fault w \<and>
     call_fault w' = call_fault w \<and> reg w' = reg w \<and> calls w' = calls w @ [Write name]"
  by (auto simp: Execute_def issue_def split: option.splits prod.splits)

lemma ensureDir_world:
  "ensureDir d w = (None, w') \<Longrightarrow>
     fileExists w' d \<and> stat_fault w' = stat_fault w \<and> call_fault w' = call_fault w \<and> reg w' = reg w \<and>
     (w' = w \<or> (nodes w d = None \<and> nodes w' = (nodes w)(d \<mapsto> Directory)))"
  by (auto simp: ensureDir_def fileExists_iff dest!: os_Mkdir_world split: if_splits)

lemma ensureDir_files:
  assumes "ensureDir d w = (None, w1)"
  shows "nodes w1 name = Some (File text) \<longleftrightarrow> nodes w name = Some (File text)"
  using ensureDir_world [OF assms] by (auto split: if_splits)

lemma ensureDir_keeps:
  assumes "ensureDir d w = (None, w1)" and "nodes w name \<noteq> None"
  shows "nodes w1 name = nodes w name"
  using ensureDir_world [OF assms(1)] assms(2) by auto

lemma Clean_not_Nil: "Clean p \<noteq> []"
  by (simp add: Clean_def Let_def)

lemma Join_not_Nil: "b \<noteq> [] \<Longrightarrow> Join a b \<noteq> []"
  by (simp add: Join_def Clean_not_Nil)

lemma outputFile_not_Nil: "outputFile lib p \<noteq> []"
  by (simp add: outputFile_def)

lemma is_ConflictError_conflict: "is_ConflictError (conflict path)"
  by (simp add: is_ConflictError_def conflict_def Errorf_def)

subsection \<open>A model name that is not configured\<close>

lemma unknown_model_nil:
  assumes "CollectionTypes (Site s) m = None" and "SingleTypes (Site s) m = None"
  shows "getModel s m = (None, True)"
  using assms by (simp add: getModel_def)

lemma CreateEntry_unknown_model:
  assumes "Metadata p ''model'' = Some (GoString m)"
    and "CollectionTypes (Site s) m = None" and "SingleTypes (Site s) m = None"
  shows "CreateEntry lib s p w = (Panic NilPointerDereference, w)"
  using assms by (simp add: CreateEntry_def index_def assert_string_def getModel_def)

lemma UpdateEntry_unknown_model:
  assumes "Metadata p ''model'' = Some (GoString m)"
    and "CollectionTypes (Site s) m = None" and "SingleTypes (Site s) m = None"
  shows "UpdateEntry lib s p w = (Panic NilPointerDereference, w)"
  using assms by (simp add: UpdateEntry_def index_def assert_string_def getModel_def)

text \<open>
  The neighbouring case, a model that is configured and whose archetype is missing, is
  answered by an error of the code \<open>ErrSiteConfig\<close>.
\<close>

lemma CreateEntry_missing_archetype:
  assumes md: "Metadata p ''model'' = Some (GoString modelName)"
    and gm: "fst (getModel s modelName) = Some model"
    and ar: "\<not> fileExists w (resolve (RootDir (Site s)) (ArchetypePath model))"
  shows "\<exists>e. CreateEntry lib s p w = (Done ([], Some e), w) \<and> is_ConfigError e"
  using md gm ar
  unfolding CreateEntry_def Let_def resolve_def [symmetric]
  by (simp add: index_def assert_string_def is_ConfigError_def Errorf_def)

lemma UpdateEntry_missing_archetype:
  assumes md: "Metadata p ''model'' = Some (GoString modelName)"
    and gm: "fst (getModel s modelName) = Some model"
    and ar: "\<not> fileExists w (resolve (RootDir (Site s)) (ArchetypePath model))"
  shows "\<exists>e. UpdateEntry lib s p w = (Done ([], Some e), w) \<and> is_ConfigError e"
  using md gm ar
  unfolding UpdateEntry_def Let_def resolve_def [symmetric]
  by (simp add: index_def assert_string_def is_ConfigError_def Errorf_def)

text \<open>
  C1.  The claim is that \<open>CreateEntry\<close> and \<open>UpdateEntry\<close> return a ConfigError for a
  model name that is in neither table.  On the site of the examples, with the payload
  of model \<open>ghost\<close>, \<open>getModel\<close> returns the nil pointer, and both functions panic
  when they read the archetype path through it: nothing is returned, and the world
  is as it was.
\<close>

theorem unknown_model_panics:
  "getModel (service_example None None) ''ghost'' = (None, True) \<and>
   CreateEntry lib_example (service_example None None) (payload_example ''ghost'' ''Hello World'')
       world_example = (Panic NilPointerDereference, world_example) \<and>
   UpdateEntry lib_example (service_example None None) (payload_example ''ghost'' ''Hello World'')
       world_example = (Panic NilPointerDereference, world_example)"
proof -
  have md: "Metadata (payload_example ''ghost'' ''Hello World'') ''model'' = Some (GoString ''ghost'')"
    by (simp add: payload_example_def)
  have c: "CollectionTypes (Site (service_example None None)) ''ghost'' = None"
    and s: "SingleTypes (Site (service_example None None)) ''ghost'' = None"
    by (simp_all add: service_example_def site_example_def)
  show ?thesis
    using unknown_model_nil [OF c s] CreateEntry_unknown_model [OF md c s]
      UpdateEntry_unknown_model [OF md c s]
    by simp
qed

subsection \<open>CreateEntry\<close>

lemma CreateEntry_at_check:
  assumes md: "Metadata p ''model'' = Some (GoString modelName)"
    and gm: "fst (getModel s modelName) = Some model"
    and ap: "archetypePath = resolve (RootDir (Site s)) (ArchetypePath model)"
    and od: "outputDir = resolve (RootDir (Site s)) (OutputDir model)"
    and op: "outputPath = Join outputDir (outputFile lib p)"
    and ar: "fileExists w archetypePath"
    and dir: "ensureDir outputDir w = (None, w1)"
    and ex: "fileExists w1 outputPath"
  shows "CreateEntry lib s p w = (Done ([], Some (conflict outputPath)), w1)"
  using md gm ar dir ex unfolding ap od op
  by (simp add: CreateEntry_def index_def assert_string_def resolve_def outputFile_def
      ensureDir_def conflict_def Let_def)

lemma CreateEntry_DoneE:
  assumes run: "CreateEntry lib s p w = (Done (out, err), w')" and out: "out \<noteq> [] \<or> err = None"
  obtains modelName model w1 tmpl w2 w3 entryId where
    "Metadata p ''model'' = Some (GoString modelName)"
    "fst (getModel s modelName) = Some model"
    "fileExists w (resolve (RootDir (Site s)) (ArchetypePath model))"
    "ensureDir (resolve (RootDir (Site s)) (OutputDir model)) w = (None, w1)"
    "out = Join (resolve (RootDir (Site s)) (OutputDir model)) (outputFile lib p)"
    "\<not> fileExists w1 out"
    "ParseFiles lib w1 (resolve (RootDir (Site s)) (ArchetypePath model)) = Inr tmpl"
    "os_Create out w1 = (None, w2)"
    "Execute lib tmpl out (Entry p) w2 = (None, w3)"
    "EntryId p = Done entryId"
    "nodes w' = nodes w3" "stat_fault w' = stat_fault w3"
  using assms
  unfolding CreateEntry_def resolve_def [symmetric] ensureDir_def [symmetric]
  by (auto simp: Let_def outputFile_def assert_string_def index_def
      dest!: registry_CreateEntry_world registry_Flush_world
      split: exec.splits option.splits sum.splits prod.splits if_splits go_value.splits)

lemma CreateEntry_registry_step:
  assumes md: "Metadata p ''model'' = Some (GoString modelName)"
    and gm: "fst (getModel s modelName) = Some model"
    and ap: "archetypePath = resolve (RootDir (Site s)) (ArchetypePath model)"
    and od: "outputDir = resolve (RootDir (Site s)) (OutputDir model)"
    and op: "outputPath = Join outputDir (outputFile lib p)"
    and ar: "fileExists w archetypePath"
    and dir: "ensureDir outputDir w = (None, w1)"
    and free: "\<not> fileExists w1 outputPath"
    and parse: "ParseFiles lib w1 archetypePath = Inr tmpl"
    and create: "os_Create outputPath w1 = (None, w2)"
    and exec: "Execute lib tmpl outputPath (Entry p) w2 = (None, w3)"
    and id: "EntryId p = Done entryId"
  shows "CreateEntry lib s p w =
     (case registry_CreateEntry s entryId outputPath w3 of
        (Some err, w4) \<Rightarrow> (Done (outputPath, Some err), w4)
      | (None, w4) \<Rightarrow>
          (case registry_Flush s w4 of
             (Some err, w5) \<Rightarrow> (Done (outputPath, Some err), w5)
           | (None, w5) \<Rightarrow> (Done (outputPath, None), w5)))"
  using md gm ar dir free parse create exec id
  unfolding ap od op CreateEntry_def Let_def resolve_def [symmetric] ensureDir_def [symmetric]
    outputFile_def [symmetric]
  by (simp add: index_def assert_string_def)

lemma CreateEntry_Done_path:
  assumes first: "CreateEntry lib s p w = (Done (out, None), w')"
    and md: "Metadata p ''model'' = Some (GoString modelName)"
    and gm: "fst (getModel s modelName) = Some model"
  shows "out = Join (resolve (RootDir (Site s)) (OutputDir model)) (outputFile lib p)"
proof -
  from first obtain modelName' model' where
    "Metadata p ''model'' = Some (GoString modelName')"
    and "fst (getModel s modelName') = Some model'"
    and "out = Join (resolve (RootDir (Site s)) (OutputDir model')) (outputFile lib p)"
    by (rule CreateEntry_DoneE) auto
  with md gm show ?thesis
    by simp
qed

lemma CreateEntry_again:
  assumes first: "CreateEntry lib s p w = (Done (out, None), w')"
    and same_model: "Metadata p' ''model'' = Metadata p ''model''"
    and same_title: "Entry p' ''Title'' = Entry p ''Title''"
  shows "CreateEntry lib s p' w' = (Done ([], Some (conflict out)), w')"
proof -
  from first obtain modelName model w1 tmpl w2 w3 entryId where
    md: "Metadata p ''model'' = Some (GoString modelName)"
    and gm: "fst (getModel s modelName) = Some model"
    and ar: "fileExists w (resolve (RootDir (Site s)) (ArchetypePath model))"
    and dir: "ensureDir (resolve (RootDir (Site s)) (OutputDir model)) w = (None, w1)"
    and out: "out = Join (resolve (RootDir (Site s)) (OutputDir model)) (outputFile lib p)"
    and free: "\<not> fileExists w1 out"
    and create: "os_Create out w1 = (None, w2)"
    and exec: "Execute lib tmpl out (Entry p) w2 = (None, w3)"
    and n: "nodes w' = nodes w3" and sf: "stat_fault w' = stat_fault w3"
    by (rule CreateEntry_DoneE) auto
  note d = ensureDir_world [OF dir] and c = os_Create_world [OF create]
    and x = Execute_world [OF exec]
  have nodes': "nodes w' = (nodes w1)(out \<mapsto> File (fst (tmpl_exec lib tmpl (Entry p))))"
    using n c x by simp
  have sf': "stat_fault w' = stat_fault w1" "stat_fault w1 = stat_fault w"
    using sf c x d by simp_all
  have grow: "nodes w name \<noteq> None \<Longrightarrow> nodes w1 name \<noteq> None" for name
    using d by auto
  have ar': "fileExists w' (resolve (RootDir (Site s)) (ArchetypePath model))"
    using ar grow by (auto simp: fileExists_iff nodes' sf')
  have "fileExists w' (resolve (RootDir (Site s)) (OutputDir model))"
    using d by (auto simp: fileExists_iff nodes' sf')
  then have dir': "ensureDir (resolve (RootDir (Site s)) (OutputDir model)) w' = (None, w')"
    by (simp add: ensureDir_def)
  have ex': "fileExists w' out"
    by (simp add: fileExists_iff nodes')
  have same_file: "outputFile lib p' = outputFile lib p"
    using same_title by (simp add: outputFile_def index_def)
  have md': "Metadata p' ''model'' = Some (GoString modelName)"
    using md same_model by simp
  show ?thesis
    by (rule CreateEntry_at_check [OF md' gm refl refl _ ar' dir' ex']) (simp add: out same_file)
qed

text \<open>
  Whenever \<open>CreateEntry\<close> returns a path that is not empty, with or without an error,
  the file at that path holds what the template wrote.
\<close>

lemma CreateEntry_path_written:
  assumes run: "CreateEntry lib s p w = (Done (out, err), w')" and out: "out \<noteq> []"
  shows "\<exists>tmpl. nodes w' out = Some (File (fst (tmpl_exec lib tmpl (Entry p))))"
proof -
  from out have reached: "out \<noteq> [] \<or> err = None"
    by simp
  show ?thesis
  proof (rule CreateEntry_DoneE [OF run reached])
    fix tmpl w2 w3
    assume exec: "Execute lib tmpl out (Entry p) w2 = (None, w3)" and n: "nodes w' = nodes w3"
    show ?thesis
      using Execute_world [OF exec] n by auto
  qed
qed

text \<open>
  C3.  Take a call of \<open>CreateEntry\<close> that has rendered and written the output file:
  the model is resolved, its archetype is there, the output directory is there or has
  been made (\<open>w1\<close>), the output path was free, the archetype parsed, the file was
  created (\<open>w2\<close>) and the template executed into it (\<open>w3\<close>).  If then the
  \<open>CreateEntry\<close> of the registry fails with \<open>e\<close>, or it succeeds and \<open>Flush\<close> fails
  with \<open>e\<close>, the call returns the output path, which is not empty, together with
  \<open>e\<close>, and in the world it leaves the file at the output path still holds the
  rendered text: nothing is rolled back.
\<close>

theorem CreateEntry_registry_failure:
  assumes md: "Metadata p ''model'' = Some (GoString modelName)"
    and gm: "fst (getModel s modelName) = Some model"
    and ap: "archetypePath = resolve (RootDir (Site s)) (ArchetypePath model)"
    and od: "outputDir = resolve (RootDir (Site s)) (OutputDir model)"
    and op: "outputPath = Join outputDir (outputFile lib p)"
    and ar: "fileExists w archetypePath"
    and dir: "ensureDir outputDir w = (None, w1)"
    and free: "\<not> fileExists w1 outputPath"
    and parse: "ParseFiles lib w1 archetypePath = Inr tmpl"
    and create: "os_Create outputPath w1 = (None, w2)"
    and exec: "Execute lib tmpl outputPath (Entry p) w2 = (None, w3)"
    and id: "EntryId p = Done entryId"
    and fail: "registry_CreateEntry s entryId outputPath w3 = (Some e, w4) \<or>
       (\<exists>w'. registry_CreateEntry s entryId outputPath w3 = (None, w') \<and>
             registry_Flush s w' = (Some e, w4))"
  shows "CreateEntry lib s p w = (Done (outputPath, Some e), w4) \<and> outputPath \<noteq> [] \<and>
     nodes w4 outputPath = Some (File (fst (tmpl_exec lib tmpl (Entry p))))"
proof -
  note step = CreateEntry_registry_step [OF md gm ap od op ar dir free parse create exec id]
  have written: "nodes w3 outputPath = Some (File (fst (tmpl_exec lib tmpl (Entry p))))"
    using Execute_world [OF exec] by simp
  have nonempty: "outputPath \<noteq> []"
    unfolding op by (rule Join_not_Nil [OF outputFile_not_Nil])
  from fail show ?thesis
  proof
    assume c: "registry_CreateEntry s entryId outputPath w3 = (Some e, w4)"
    then have "nodes w4 = nodes w3"
      by (simp add: registry_CreateEntry_world)
    with c step written nonempty show ?thesis
      by simp
  next
    assume "\<exists>w'. registry_CreateEntry s entryId outputPath w3 = (None, w') \<and>
             registry_Flush s w' = (Some e, w4)"
    then obtain w' where c: "registry_CreateEntry s entryId outputPath w3 = (None, w')"
      and f: "registry_Flush s w' = (Some e, w4)"
      by blast
    have "nodes w4 = nodes w3"
      using registry_CreateEntry_world [OF c] registry_Flush_world [OF f] by simp
    with c f step written nonempty show ?thesis
      by simp
  qed
qed

text \<open>
  On the site of the examples, with a registry whose \<open>CreateEntry\<close> fails, the call
  returns the path of the new file and the error of the registry, and the file stays.
\<close>

theorem CreateEntry_registry_failure_witness:
  "fst (CreateEntry lib_example (service_example (Some (OtherError ''registry down'')) None)
          (payload_example ''post'' ''Hello World'') world_example)
     = Done (''/site/content/posts/Hello-World.html'', Some (OtherError ''registry down'')) \<and>
   nodes (snd (CreateEntry lib_example (service_example (Some (OtherError ''registry down'')) None)
          (payload_example ''post'' ''Hello World'') world_example))
     ''/site/content/posts/Hello-World.html'' = Some (File ''<h1>Hello World'')"
proof -
  let ?s = "service_example (Some (OtherError ''registry down'')) None"
  let ?p = "payload_example ''post'' ''Hello World''"
  let ?out = "''/site/content/posts/Hello-World.html''"
  let ?arch = "''/site/archetypes/post.html''"
  let ?model = "\<lparr>ArchetypePath = ''archetypes/post.html'', OutputDir = ''content/posts''\<rparr>"
  let ?w2 = "snd (os_Create ?out world_example)"
  let ?w3 = "snd (Execute lib_example ''<h1>'' ?out (Entry ?p) ?w2)"
  let ?w4 = "snd (registry_CreateEntry ?s ''post-5'' ?out ?w3)"
  have md: "Metadata ?p ''model'' = Some (GoString ''post'')"
    by (simp add: payload_example_def)
  have gm: "fst (getModel ?s ''post'') = Some ?model"
    by (simp add: getModel_def service_example_def site_example_def)
  have ap: "?arch = resolve (RootDir (Site ?s)) (ArchetypePath ?model)"
    by code_simp
  have od: "''/site/content/posts'' = resolve (RootDir (Site ?s)) (OutputDir ?model)"
    by code_simp
  have op: "?out = Join ''/site/content/posts'' (outputFile lib_example ?p)"
    by code_simp
  have ar: "fileExists world_example ?arch"
    by code_simp
  have dir: "ensureDir ''/site/content/posts'' world_example = (None, world_example)"
    by (simp add: ensureDir_def fileExists_def os_Stat_def is_ErrNotExist_def world_example_def)
  have free: "\<not> fileExists world_example ?out"
    by code_simp
  have parse: "ParseFiles lib_example world_example ?arch = Inr ''<h1>''"
    by code_simp
  have "fst (os_Create ?out world_example) = None"
    by code_simp
  then have create: "os_Create ?out world_example = (None, ?w2)"
    by (rule pair_fstI)
  have "fst (Execute lib_example ''<h1>'' ?out (Entry ?p) ?w2) = None"
    by code_simp
  then have exec: "Execute lib_example ''<h1>'' ?out (Entry ?p) ?w2 = (None, ?w3)"
    by (rule pair_fstI)
  have id: "EntryId ?p = Done ''post-5''"
    by code_simp
  have "fst (registry_CreateEntry ?s ''post-5'' ?out ?w3) = Some (OtherError ''registry down'')"
    by code_simp
  then have "registry_CreateEntry ?s ''post-5'' ?out ?w3 = (Some (OtherError ''registry down''), ?w4)"
    by (rule pair_fstI)
  then have fail: "registry_CreateEntry ?s ''post-5'' ?out ?w3 = (Some (OtherError ''registry down''), ?w4) \<or>
       (\<exists>w'. registry_CreateEntry ?s ''post-5'' ?out ?w3 = (None, w') \<and>
             registry_Flush ?s w' = (Some (OtherError ''registry down''), ?w4))"
    by (rule disjI1)
  have rendered: "fst (tmpl_exec lib_example ''<h1>'' (Entry ?p)) = ''<h1>Hello World''"
    by code_simp
  from CreateEntry_registry_failure [OF md gm ap od op ar dir free parse create exec id fail]
  show ?thesis
    by (simp add: rendered)
qed

text \<open>
  C5.  Take a call of \<open>CreateEntry\<close> whose model is resolved, with the paths the code
  computes for it.  First part: if the archetype is there, the output directory is
  there or has been made (\<open>w1\<close>), and the output path exists, then the call returns
  the collision error (code \<open>ErrInvalid\<close>, the spec's ConflictError) and leaves the
  world as it was at the check: no file is created, written or removed, and what was
  at the output path is still there.  Second part: after a call that succeeded, a call
  with the same model and title, in the world the first one left, returns the
  collision error for the same path and leaves that world as it is.
\<close>

theorem CreateEntry_conflict_no_overwrite:
  assumes md: "Metadata p ''model'' = Some (GoString modelName)"
    and gm: "fst (getModel s modelName) = Some model"
    and ap: "archetypePath = resolve (RootDir (Site s)) (ArchetypePath model)"
    and od: "outputDir = resolve (RootDir (Site s)) (OutputDir model)"
    and op: "outputPath = Join outputDir (outputFile lib p)"
  shows "(fileExists w archetypePath \<and> ensureDir outputDir w = (None, w1) \<and> fileExists w1 outputPath \<longrightarrow>
            CreateEntry lib s p w = (Done ([], Some (conflict outputPath)), w1) \<and>
            is_ConflictError (conflict outputPath) \<and>
            (nodes w outputPath \<noteq> None \<longrightarrow> nodes w1 outputPath = nodes w outputPath)) \<and>
         (CreateEntry lib s p w = (Done (out, None), w') \<and>
          Metadata p' ''model'' = Metadata p ''model'' \<and> Entry p' ''Title'' = Entry p ''Title'' \<longrightarrow>
            out = outputPath \<and>
            CreateEntry lib s p' w' = (Done ([], Some (conflict outputPath)), w'))"
proof (intro conjI impI)
  assume a: "fileExists w archetypePath \<and> ensureDir outputDir w = (None, w1) \<and> fileExists w1 outputPath"
  then show "CreateEntry lib s p w = (Done ([], Some (conflict outputPath)), w1)"
    using CreateEntry_at_check [OF md gm ap od op] by blast
  show "is_ConflictError (conflict outputPath)"
    by (rule is_ConflictError_conflict)
  assume "nodes w outputPath \<noteq> None"
  with a show "nodes w1 outputPath = nodes w outputPath"
    using ensureDir_keeps by blast
next
  assume b: "CreateEntry lib s p w = (Done (out, None), w') \<and>
          Metadata p' ''model'' = Metadata p ''model'' \<and> Entry p' ''Title'' = Entry p ''Title''"
  then show path: "out = outputPath"
    using CreateEntry_Done_path [OF b [THEN conjunct1] md gm] by (simp add: op od)
  from b show "CreateEntry lib s p' w' = (Done ([], Some (conflict outputPath)), w')"
    using CreateEntry_again [of lib s p w out w' p'] path by simp
qed

text \<open>
  In \<open>world_two\<close>, creating an entry whose title gives the name of a file that is
  there returns the collision error and changes nothing; and creating the entry
  \<open>Hello World\<close> twice on the site of the examples, the second call returns the
  collision error.
\<close>

theorem CreateEntry_conflict_no_overwrite_witness:
  "CreateEntry lib_example (service_example None None) (payload_example ''post'' ''Other'') world_two
     = (Done ([], Some (MidasError ErrInvalid ''output file Other.html already exists'')), world_two) \<and>
   fst (CreateEntry lib_example (service_example None None) (payload_example ''post'' ''Hello World'')
          (snd (CreateEntry lib_example (service_example None None)
                  (payload_example ''post'' ''Hello World'') world_example)))
     = Done ([], Some (MidasError ErrInvalid ''output file Hello-World.html already exists''))"
proof -
  let ?s = "service_example None None"
  let ?p = "payload_example ''post'' ''Hello World''"
  let ?q = "payload_example ''post'' ''Other''"
  let ?out = "''/site/content/posts/Hello-World.html''"
  let ?other = "''/site/content/posts/Other.html''"
  let ?model = "\<lparr>ArchetypePath = ''archetypes/post.html'', OutputDir = ''content/posts''\<rparr>"
  let ?w' = "snd (CreateEntry lib_example ?s ?p world_example)"
  have md: "Metadata ?p ''model'' = Some (GoString ''post'')"
    and md': "Metadata ?q ''model'' = Some (GoString ''post'')"
    by (simp_all add: payload_example_def)
  have gm: "fst (getModel ?s ''post'') = Some ?model"
    by (simp add: getModel_def service_example_def site_example_def)
  have ap: "''/site/archetypes/post.html'' = resolve (RootDir (Site ?s)) (ArchetypePath ?model)"
    by code_simp
  have od: "''/site/content/posts'' = resolve (RootDir (Site ?s)) (OutputDir ?model)"
    by code_simp
  have op: "?out = Join ''/site/content/posts'' (outputFile lib_example ?p)"
    and op': "?other = Join ''/site/content/posts'' (outputFile lib_example ?q)"
    by code_simp+
  have ar: "fileExists world_two ''/site/archetypes/post.html''"
    by code_simp
  have dir: "ensureDir ''/site/content/posts'' world_two = (None, world_two)"
    by (simp add: ensureDir_def fileExists_def os_Stat_def is_ErrNotExist_def world_two_def)
  have occupied: "fileExists world_two ?other"
    by code_simp
  have msg': "conflict ?other = MidasError ErrInvalid ''output file Other.html already exists''"
    by code_simp
  have one: "CreateEntry lib_example ?s ?q world_two = (Done ([], Some (conflict ?other)), world_two)"
    using CreateEntry_conflict_no_overwrite [where w = world_two and ?w1.0 = world_two,
        OF md' gm ap od op', THEN conjunct1] ar dir occupied
    by blast
  have "fst (CreateEntry lib_example ?s ?p world_example) = Done (?out, None)"
    by code_simp
  then have first: "CreateEntry lib_example ?s ?p world_example = (Done (?out, None), ?w')"
    by (rule pair_fstI)
  have msg: "conflict ?out = MidasError ErrInvalid ''output file Hello-World.html already exists''"
    by code_simp
  have two: "CreateEntry lib_example ?s ?p ?w' = (Done ([], Some (conflict ?out)), ?w')"
    using CreateEntry_conflict_no_overwrite [OF md gm ap od op, THEN conjunct2, rule_format,
      where w = world_example and out = ?out and w' = ?w' and p' = ?p] first
    by simp
  from one two show ?thesis
    by (simp add: msg msg')
qed

subsection \<open>UpdateEntry\<close>

lemma UpdateEntry_conflict:
  assumes md: "Metadata p ''model'' = Some (GoString modelName)"
    and gm: "fst (getModel s modelName) = Some model"
    and ap: "archetypePath = resolve (RootDir (Site s)) (ArchetypePath model)"
    and ar: "fileExists w archetypePath"
    and id: "EntryId p = Done entryId"
    and old: "oldPath = fst (reg_ReadEntry (registry s) entryId (reg w))"
    and od: "outputDir = Dir oldPath"
    and op: "outputPath = Join outputDir (outputFile lib p)"
    and dir: "ensureDir outputDir w = (None, w1)"
    and ex: "fileExists w1 outputPath"
    and diff: "Base outputPath \<noteq> Base oldPath"
  shows "UpdateEntry lib s p w = (Done ([], Some (conflict outputPath)), w1)"
  using md gm ar id dir ex diff
  unfolding ap old od op UpdateEntry_def Let_def resolve_def [symmetric] ensureDir_def [symmetric]
    outputFile_def [symmetric]
  by (simp add: index_def assert_string_def conflict_def)

lemma UpdateEntry_registry_step:
  assumes md: "Metadata p ''model'' = Some (GoString modelName)"
    and gm: "fst (getModel s modelName) = Some model"
    and ap: "archetypePath = resolve (RootDir (Site s)) (ArchetypePath model)"
    and ar: "fileExists w archetypePath"
    and id: "EntryId p = Done entryId"
    and old: "oldPath = fst (reg_ReadEntry (registry s) entryId (reg w))"
    and od: "outputDir = Dir oldPath"
    and op: "outputPath = Join outputDir (outputFile lib p)"
    and dir: "ensureDir outputDir w = (None, w1)"
    and pass: "\<not> (fileExists w1 outputPath \<and> Base outputPath \<noteq> Base oldPath)"
    and rm: "w2 = (if fileExists w1 oldPath then snd (os_Remove oldPath w1) else w1)"
    and parse: "ParseFiles lib w2 archetypePath = Inr tmpl"
    and create: "os_Create outputPath w2 = (None, w3)"
    and exec: "Execute lib tmpl outputPath (Entry p) w3 = (None, w4)"
  shows "UpdateEntry lib s p w =
     (case registry_UpdateEntry s entryId outputPath w4 of
        (Some err, w5) \<Rightarrow> (Done (outputPath, Some err), w5)
      | (None, w5) \<Rightarrow>
          (case registry_Flush s w5 of
             (Some err, w6) \<Rightarrow> (Done (outputPath, Some err), w6)
           | (None, w6) \<Rightarrow> (Done (outputPath, None), w6)))"
  using md gm ar id dir pass parse create exec
  unfolding ap old od op rm UpdateEntry_def Let_def resolve_def [symmetric] ensureDir_def [symmetric]
    outputFile_def [symmetric]
  by (auto simp: index_def assert_string_def)

text \<open>
  C4.  Take a call of \<open>UpdateEntry\<close> that reaches the collision check: the model is
  resolved, its archetype is there, \<open>oldPath\<close> is what the registry has for the entry,
  and the directory of \<open>oldPath\<close> is there or has been made (\<open>w1\<close>).  First part: if
  the recomputed output path exists and its base name differs from the base name of
  \<open>oldPath\<close>, the call returns the collision error (code \<open>ErrInvalid\<close>, the spec's
  ConflictError) and leaves the world as it was at the check; the regular files are
  those from before the call.  Second part: if the two base names are equal, the
  check lets the call through also when the output path exists; when the archetype
  then parses, the file is created and the template executed, the call returns the
  output path and the file at the output path holds the new rendering.
\<close>

theorem UpdateEntry_collision_policy:
  assumes md: "Metadata p ''model'' = Some (GoString modelName)"
    and gm: "fst (getModel s modelName) = Some model"
    and ap: "archetypePath = resolve (RootDir (Site s)) (ArchetypePath model)"
    and ar: "fileExists w archetypePath"
    and id: "EntryId p = Done entryId"
    and old: "oldPath = fst (reg_ReadEntry (registry s) entryId (reg w))"
    and od: "outputDir = Dir oldPath"
    and op: "outputPath = Join outputDir (outputFile lib p)"
    and dir: "ensureDir outputDir w = (None, w1)"
  shows "(fileExists w1 outputPath \<and> Base outputPath \<noteq> Base oldPath \<longrightarrow>
            UpdateEntry lib s p w = (Done ([], Some (conflict outputPath)), w1) \<and>
            is_ConflictError (conflict outputPath) \<and>
            (\<forall>name body. nodes w1 name = Some (File body) \<longleftrightarrow> nodes w name = Some (File body))) \<and>
         (Base outputPath = Base oldPath \<and>
          w2 = (if fileExists w1 oldPath then snd (os_Remove oldPath w1) else w1) \<and>
          ParseFiles lib w2 archetypePath = Inr tmpl \<and>
          os_Create outputPath w2 = (None, w3) \<and>
          Execute lib tmpl outputPath (Entry p) w3 = (None, w4) \<longrightarrow>
            (\<exists>err. fst (UpdateEntry lib s p w) = Done (outputPath, err)) \<and>
            nodes (snd (UpdateEntry lib s p w)) outputPath =
              Some (File (fst (tmpl_exec lib tmpl (Entry p)))))"
proof (intro conjI impI allI)
  assume a: "fileExists w1 outputPath \<and> Base outputPath \<noteq> Base oldPath"
  then show "UpdateEntry lib s p w = (Done ([], Some (conflict outputPath)), w1)"
    using UpdateEntry_conflict [OF md gm ap ar id old od op dir] by blast
  show "is_ConflictError (conflict outputPath)"
    by (rule is_ConflictError_conflict)
  show "nodes w1 name = Some (File body) \<longleftrightarrow> nodes w name = Some (File body)" for name body
    by (rule ensureDir_files [OF dir])
next
  assume b: "Base outputPath = Base oldPath \<and>
          w2 = (if fileExists w1 oldPath then snd (os_Remove oldPath w1) else w1) \<and>
          ParseFiles lib w2 archetypePath = Inr tmpl \<and>
          os_Create outputPath w2 = (None, w3) \<and>
          Execute lib tmpl outputPath (Entry p) w3 = (None, w4)"
  then have pass: "\<not> (fileExists w1 outputPath \<and> Base outputPath \<noteq> Base oldPath)"
    and rm: "w2 = (if fileExists w1 oldPath then snd (os_Remove oldPath w1) else w1)"
    and parse: "ParseFiles lib w2 archetypePath = Inr tmpl"
    and create: "os_Create outputPath w2 = (None, w3)"
    and exec: "Execute lib tmpl outputPath (Entry p) w3 = (None, w4)"
    by blast+
  note step = UpdateEntry_registry_step [OF md gm ap ar id old od op dir pass rm parse create exec]
  have written: "nodes w4 outputPath = Some (File (fst (tmpl_exec lib tmpl (Entry p))))"
    using Execute_world [OF exec] by simp
  obtain e5 w5 where u: "registry_UpdateEntry s entryId outputPath w4 = (e5, w5)"
    by (cases "registry_UpdateEntry s entryId outputPath w4")
  obtain e6 w6 where f: "registry_Flush s w5 = (e6, w6)"
    by (cases "registry_Flush s w5")
  have n5: "nodes w5 = nodes w4" and n6: "nodes w6 = nodes w5"
    using registry_UpdateEntry_world [OF u] registry_Flush_world [OF f] by simp_all
  show "\<exists>err. fst (UpdateEntry lib s p w) = Done (outputPath, err)"
    using step u f by (auto split: option.splits)
  show "nodes (snd (UpdateEntry lib s p w)) outputPath =
          Some (File (fst (tmpl_exec lib tmpl (Entry p))))"
    using step u f n5 n6 written by (auto split: option.splits)
qed

text \<open>
  In \<open>world_two\<close>, updating the entry to the title \<open>Other\<close>, whose file belongs to
  another entry, returns the collision error and changes nothing; updating it with
  its own title writes its file again.
\<close>

theorem UpdateEntry_collision_policy_witness:
  "UpdateEntry lib_example (service_example None None) (payload_example ''post'' ''Other'') world_two
     = (Done ([], Some (MidasError ErrInvalid ''output file Other.html already exists'')), world_two) \<and>
   nodes (snd (UpdateEntry lib_example (service_example None None)
                 (payload_example ''post'' ''Hello World'') world_two))
     ''/site/content/posts/Hello-World.html'' = Some (File ''<h1>Hello World'')"
proof -
  let ?s = "service_example None None"
  let ?p = "payload_example ''post'' ''Other''"
  let ?q = "payload_example ''post'' ''Hello World''"
  let ?old = "''/site/content/posts/Hello-World.html''"
  let ?out = "''/site/content/posts/Other.html''"
  let ?arch = "''/site/archetypes/post.html''"
  let ?model = "\<lparr>ArchetypePath = ''archetypes/post.html'', OutputDir = ''content/posts''\<rparr>"
  let ?W2 = "if fileExists world_two ?old then snd (os_Remove ?old world_two) else world_two"
  let ?W3 = "snd (os_Create ?old ?W2)"
  let ?W4 = "snd (Execute lib_example ''<h1>'' ?old (Entry ?q) ?W3)"
  have md: "Metadata ?p ''model'' = Some (GoString ''post'')"
    and md': "Metadata ?q ''model'' = Some (GoString ''post'')"
    by (simp_all add: payload_example_def)
  have gm: "fst (getModel ?s ''post'') = Some ?model"
    by (simp add: getModel_def service_example_def site_example_def)
  have ap: "?arch = resolve (RootDir (Site ?s)) (ArchetypePath ?model)"
    by code_simp
  have ar: "fileExists world_two ?arch"
    by code_simp
  have id: "EntryId ?p = Done ''post-5''" and id': "EntryId ?q = Done ''post-5''"
    by code_simp+
  have old: "?old = fst (reg_ReadEntry (registry ?s) ''post-5'' (reg world_two))"
    by code_simp
  have od: "''/site/content/posts'' = Dir ?old"
    by code_simp
  have op: "?out = Join ''/site/content/posts'' (outputFile lib_example ?p)"
    and op': "?old = Join ''/site/content/posts'' (outputFile lib_example ?q)"
    by code_simp+
  have dir: "ensureDir ''/site/content/posts'' world_two = (None, world_two)"
    by (simp add: ensureDir_def fileExists_def os_Stat_def is_ErrNotExist_def world_two_def)
  have occupied: "fileExists world_two ?out \<and> Base ?out \<noteq> Base ?old"
    by code_simp
  have msg: "conflict ?out = MidasError ErrInvalid ''output file Other.html already exists''"
    by code_simp
  have one: "UpdateEntry lib_example ?s ?p world_two = (Done ([], Some (conflict ?out)), world_two)"
    using UpdateEntry_collision_policy [OF md gm ap ar id old od op dir, THEN conjunct1] occupied
    by blast
  have parse: "ParseFiles lib_example ?W2 ?arch = Inr ''<h1>''"
    by code_simp
  have "fst (os_Create ?old ?W2) = None"
    by code_simp
  then have create: "os_Create ?old ?W2 = (None, ?W3)"
    by (rule pair_fstI)
  have "fst (Execute lib_example ''<h1>'' ?old (Entry ?q) ?W3) = None"
    by code_simp
  then have exec: "Execute lib_example ''<h1>'' ?old (Entry ?q) ?W3 = (None, ?W4)"
    by (rule pair_fstI)
  have rendered: "fst (tmpl_exec lib_example ''<h1>'' (Entry ?q)) = ''<h1>Hello World''"
    by code_simp
  have two: "nodes (snd (UpdateEntry lib_example ?s ?q world_two)) ?old =
      Some (File (fst (tmpl_exec lib_example ''<h1>'' (Entry ?q))))"
    using UpdateEntry_collision_policy [where ?w2.0 = ?W2 and tmpl = "''<h1>''" and ?w3.0 = ?W3
        and ?w4.0 = ?W4, OF md' gm ap ar id' old od op' dir, THEN conjunct2]
      parse create exec
    by blast
  from one two show ?thesis
    by (simp add: msg rendered)
qed

subsection \<open>fileExists when Stat fails\<close>

text \<open>
  C10.  \<open>fileExists\<close> is true of every path on which \<^verbatim>\<open>os.Stat\<close> fails with an error
  other than "no such file", whether or not something is at the path.  So, in
  \<open>world_denied\<close>, where nothing is at the output path and \<^verbatim>\<open>os.Stat\<close> on it fails
  with "permission denied", \<open>CreateEntry\<close> returns the collision error for that path;
  and \<open>UpdateEntry\<close>, for which this path is the registered \<open>oldPath\<close>, issues
  \<^verbatim>\<open>os.Remove\<close> on it before it creates and writes the file.
\<close>

theorem stat_failure_counts_as_existing:
  "(\<forall>(w :: 'r world) name f. stat_fault w name = Some f \<longrightarrow> fileExists w name) \<and>
   (nodes world_denied ''/site/content/posts/Hello-World.html'' = None \<and>
    fst (CreateEntry lib_example (service_example None None)
           (payload_example ''post'' ''Hello World'') world_denied)
      = Done ([], Some (conflict ''/site/content/posts/Hello-World.html''))) \<and>
   (fst (reg_ReadEntry (registry (service_example None None)) ''post-5'' (reg world_denied))
      = ''/site/content/posts/Hello-World.html'' \<and>
    calls (snd (UpdateEntry lib_example (service_example None None)
                  (payload_example ''post'' ''Hello World'') world_denied))
      = [Remove ''/site/content/posts/Hello-World.html'',
         Create ''/site/content/posts/Hello-World.html'',
         Write ''/site/content/posts/Hello-World.html''])"
proof (intro conjI allI impI)
  show "fileExists w name" if "stat_fault w name = Some f" for w :: "'r world" and name f
    using that by (rule stat_fault_fileExists)
  show "nodes world_denied ''/site/content/posts/Hello-World.html'' = None"
    by code_simp
  show "fst (CreateEntry lib_example (service_example None None)
           (payload_example ''post'' ''Hello World'') world_denied)
      = Done ([], Some (conflict ''/site/content/posts/Hello-World.html''))"
    by code_simp
  show "fst (reg_ReadEntry (registry (service_example None None)) ''post-5'' (reg world_denied))
      = ''/site/content/posts/Hello-World.html''"
    by code_simp
  show "calls (snd (UpdateEntry lib_example (service_example None None)
                  (payload_example ''post'' ''Hello World'') world_denied))
      = [Remove ''/site/content/posts/Hello-World.html'',
         Create ''/site/content/posts/Hello-World.html'',
         Write ''/site/content/posts/Hello-World.html'']"
    by code_simp
qed

text \<open>
  The path of \<open>world_denied\<close>: nothing is there, and \<open>fileExists\<close> is true of it.
\<close>

theorem stat_failure_counts_as_existing_witness:
  "fileExists world_denied ''/site/content/posts/Hello-World.html'' \<and>
   nodes world_denied ''/site/content/posts/Hello-World.html'' = None"
proof -
  have "stat_fault world_denied ''/site/content/posts/Hello-World.html'' = Some EACCES"
    by (simp add: world_denied_def)
  with stat_failure_counts_as_existing [THEN conjunct1, rule_format,
      of world_denied "''/site/content/posts/Hello-World.html''" EACCES]
  show ?thesis
    by (simp add: world_denied_def)
qed

subsection \<open>Content types\<close>

lemma ext_scan_suffix:
  assumes "\<forall>c \<in> set ys. \<not> IsPathSeparator os c \<and> c \<noteq> CHR ''.''"
  shows "ext_scan os (ys @ CHR ''.'' # xs) acc = CHR ''.'' # rev ys @ acc"
  using assms
proof (induction ys arbitrary: acc)
  case Nil
  then show ?case
    by (simp add: IsPathSeparator_def backslash_def)
next
  case (Cons y ys)
  then show ?case
    by simp
qed

lemma Ext_suffix:
  assumes "\<forall>c \<in> set r. \<not> IsPathSeparator os c \<and> c \<noteq> CHR ''.''"
  shows "Ext os (stem @ CHR ''.'' # r) = CHR ''.'' # r"
  using ext_scan_suffix [of "rev r" os "rev stem" "[]"] assms
  by (simp add: Ext_def)

lemma getFileContentType_suffix:
  assumes "\<forall>c \<in> set r. \<not> IsPathSeparator os c \<and> c \<noteq> CHR ''.''"
  shows "getFileContentType os (stem @ CHR ''.'' # r) =
    (case map_of typeByExtension (CHR ''.'' # r) of
       Some t \<Rightarrow> t | None \<Rightarrow> ''application/octet-stream'')"
  by (simp add: getFileContentType_def Ext_suffix [OF assms])

lemma getFileContentType_table:
  assumes "(ext, ty) \<in> set spec_content_types"
  shows "getFileContentType os (stem @ ext) = ty"
proof -
  have sep: "IsPathSeparator os c \<longleftrightarrow> c = CHR ''/'' \<or> os = Windows \<and> c = CHR 0x5C" for c
    by (simp add: IsPathSeparator_def backslash_def)
  from assms show ?thesis
    unfolding spec_content_types_def
    by (auto simp: getFileContentType_suffix sep typeByExtension_def)
qed

lemma getFileContentType_listed:
  assumes "(Ext os name, ty) \<in> set spec_content_types"
  shows "getFileContentType os name = ty"
proof -
  have "distinct (map fst typeByExtension)"
    by (simp add: typeByExtension_def)
  moreover have "(Ext os name, ty) \<in> set typeByExtension"
    using assms by (simp add: typeByExtension_def spec_content_types_def)
  ultimately have "map_of typeByExtension (Ext os name) = Some ty"
    by (rule map_of_is_SomeI)
  then show ?thesis
    by (simp add: getFileContentType_def)
qed

lemma getFileContentType_other:
  assumes "Ext os name \<notin> fst ` set spec_content_types"
  shows "getFileContentType os name = ''application/octet-stream''"
proof -
  have "fst ` set typeByExtension = fst ` set spec_content_types"
    by (simp add: typeByExtension_def spec_content_types_def)
  with assms have "map_of typeByExtension (Ext os name) = None"
    by (simp add: map_of_eq_None_iff)
  then show ?thesis
    by (simp add: getFileContentType_def)
qed

text \<open>
  C8.  On either system: a file name that ends with an extension of the table of the
  spec gets the content type the table lists for it, whatever stands before the
  extension; said from the name, a file name whose extension (in the sense of
  \<^verbatim>\<open>filepath.Ext\<close>) is in the table gets the type listed for that extension, and a
  file name whose extension is not in the table gets \<open>application/octet-stream\<close>.
\<close>

theorem getFileContentType_matches_table:
  "(\<forall>(ext, ty) \<in> set spec_content_types. \<forall>stem. getFileContentType os (stem @ ext) = ty) \<and>
   (\<forall>name ty. (Ext os name, ty) \<in> set spec_content_types \<longrightarrow> getFileContentType os name = ty) \<and>
   (\<forall>name. Ext os name \<notin> fst ` set spec_content_types \<longrightarrow>
      getFileContentType os name = ''application/octet-stream'')"
  using getFileContentType_table getFileContentType_listed getFileContentType_other by blast

text \<open>
  \<open>a.png\<close> is an \<open>image/png\<close>, \<open>b.unknown\<close> is of the generic binary type.
\<close>

theorem getFileContentType_matches_table_witness:
  "getFileContentType Unix ''/site/public/img/a.png'' = ''image/png'' \<and>
   getFileContentType Unix ''/site/public/img/b.unknown'' = ''application/octet-stream''"
proof -
  have known: "(''.png'', ''image/png'') \<in> set spec_content_types"
    by (simp add: spec_content_types_def)
  have "Ext Unix ''/site/public/img/b.unknown'' = ''.unknown''"
    by code_simp
  then have unknown: "Ext Unix ''/site/public/img/b.unknown'' \<notin> fst ` set spec_content_types"
    by (simp add: spec_content_types_def)
  have one: "getFileContentType Unix (''/site/public/img/a'' @ ''.png'') = ''image/png''"
    using getFileContentType_matches_table [of Unix, THEN conjunct1] known by blast
  have two: "getFileContentType Unix ''/site/public/img/b.unknown'' = ''application/octet-stream''"
    using getFileContentType_matches_table [of Unix, THEN conjunct2, THEN conjunct2] unknown by blast
  from one two show ?thesis
    by simp
qed

subsection \<open>The storage key\<close>

lemma ReplaceAll_one: "ReplaceAll s old [new] = map (\<lambda>c. if c = old then new else c) s"
  by (induction s) (simp_all add: ReplaceAll_def)

lemma Key_uploadFile_input:
  "Key (uploadFile_input d env file_Name rel) = spec_key (S3Prefix (AWS (deploymentSettings d))) rel"
  by (simp add: uploadFile_input_def Let_def ReplaceAll_one spec_key_def normalize_separators_def)

lemma normalize_separators_no_backslash: "backslash \<notin> set (normalize_separators s)"
  by (auto simp: normalize_separators_def backslash_def)

lemma normalize_separators_id: "backslash \<notin> set s \<Longrightarrow> normalize_separators s = s"
  by (induction s) (auto simp: normalize_separators_def)

lemma loop_body_upload:
  assumes "filepath_Rel env (publicPath d) path = Inr rel" and "os_Open env path = None"
  shows "loop_body d env path s = uploadFile d env path rel s"
  using assms by (simp add: loop_body_def)

text \<open>
  C7.  The loop of \<open>Deploy\<close> hands \<open>uploadFile\<close> the path of the file relative to the
  public directory; \<open>uploadFile\<close> makes one request, and the key of that request is
  the key of the spec: the prefix and a slash when the prefix is not empty, then the
  relative path, with every backslash turned into a slash.  No backslash is left in
  the key, and when neither the prefix nor the relative path has one, the key is the
  prefix, a slash and the relative path (or the relative path alone) as they are.
\<close>

theorem uploadFile_key:
  "(filepath_Rel env (publicPath d) file_Name = Inr rel \<and> os_Open env file_Name = None \<longrightarrow>
      loop_body d env file_Name s = uploadFile d env file_Name rel s) \<and>
   attempts (snd (uploadFile d env file_Name rel s)) = attempts s @ [uploadFile_input d env file_Name rel] \<and>
   Key (uploadFile_input d env file_Name rel) = spec_key (S3Prefix (AWS (deploymentSettings d))) rel \<and>
   backslash \<notin> set (Key (uploadFile_input d env file_Name rel)) \<and>
   (backslash \<notin> set (S3Prefix (AWS (deploymentSettings d))) \<and> backslash \<notin> set rel \<longrightarrow>
      Key (uploadFile_input d env file_Name rel) =
        (if S3Prefix (AWS (deploymentSettings d)) \<noteq> []
         then S3Prefix (AWS (deploymentSettings d)) @ ''/'' @ rel else rel))"
proof (intro conjI impI)
  show "loop_body d env file_Name s = uploadFile d env file_Name rel s"
    if "filepath_Rel env (publicPath d) file_Name = Inr rel \<and> os_Open env file_Name = None"
    using that by (simp add: loop_body_upload)
  show "attempts (snd (uploadFile d env file_Name rel s)) = attempts s @ [uploadFile_input d env file_Name rel]"
    by (simp add: uploadFile_def Let_def split: option.splits)
  show k: "Key (uploadFile_input d env file_Name rel) = spec_key (S3Prefix (AWS (deploymentSettings d))) rel"
    by (rule Key_uploadFile_input)
  show "backslash \<notin> set (Key (uploadFile_input d env file_Name rel))"
    unfolding k spec_key_def by (rule normalize_separators_no_backslash)
  assume "backslash \<notin> set (S3Prefix (AWS (deploymentSettings d))) \<and> backslash \<notin> set rel"
  then have "backslash \<notin> set ((if S3Prefix (AWS (deploymentSettings d)) \<noteq> []
      then S3Prefix (AWS (deploymentSettings d)) @ ''/'' else []) @ rel)"
    by (simp add: backslash_def)
  then show "Key (uploadFile_input d env file_Name rel) =
        (if S3Prefix (AWS (deploymentSettings d)) \<noteq> []
         then S3Prefix (AWS (deploymentSettings d)) @ ''/'' @ rel else rel)"
    unfolding k spec_key_def by (simp add: normalize_separators_id)
qed

text \<open>
  With the prefix \<open>assets\<close> the file \<open>img/a.png\<close> has the key \<open>assets/img/a.png\<close>,
  without a prefix the key \<open>img/a.png\<close>, and the first again when the relative path is
  written with a backslash.
\<close>

theorem uploadFile_key_witness:
  "Key (uploadFile_input (deployment_example ''assets'') (env_example [] []) ''/site/public/img/a.png''
          ''img/a.png'') = ''assets/img/a.png'' \<and>
   Key (uploadFile_input (deployment_example []) (env_example [] []) ''/site/public/img/a.png''
          ''img/a.png'') = ''img/a.png'' \<and>
   Key (uploadFile_input (deployment_example ''assets'') (env_example [] []) ''/site/public/img/a.png''
          (''img'' @ [backslash] @ ''a.png'')) = ''assets/img/a.png''"
proof -
  have p: "S3Prefix (AWS (deploymentSettings (deployment_example ''assets''))) = ''assets''"
    and q: "S3Prefix (AWS (deploymentSettings (deployment_example []))) = []"
    by (simp_all add: deployment_example_def)
  have clean: "backslash \<notin> set ''assets'' \<and> backslash \<notin> set ''img/a.png''"
    "backslash \<notin> set [] \<and> backslash \<notin> set ''img/a.png''"
    by (simp_all add: backslash_def)
  have one: "Key (uploadFile_input (deployment_example ''assets'') (env_example [] [])
      ''/site/public/img/a.png'' ''img/a.png'') = ''assets/img/a.png''"
    using uploadFile_key [where d = "deployment_example ''assets''" and env = "env_example [] []"
        and file_Name = "''/site/public/img/a.png''" and rel = "''img/a.png''" and s = s3_empty, THEN conjunct2, THEN conjunct2,
        THEN conjunct2, THEN conjunct2] clean(1)
    by (simp add: p)
  have two: "Key (uploadFile_input (deployment_example []) (env_example [] [])
      ''/site/public/img/a.png'' ''img/a.png'') = ''img/a.png''"
    using uploadFile_key [where d = "deployment_example []" and env = "env_example [] []"
        and file_Name = "''/site/public/img/a.png''" and rel = "''img/a.png''" and s = s3_empty, THEN conjunct2, THEN conjunct2,
        THEN conjunct2, THEN conjunct2] clean(2)
    by (simp add: q)
  have three: "Key (uploadFile_input (deployment_example ''assets'') (env_example [] [])
      ''/site/public/img/a.png'' (''img'' @ [backslash] @ ''a.png'')) = ''assets/img/a.png''"
    using uploadFile_key [where d = "deployment_example ''assets''" and env = "env_example [] []"
        and file_Name = "''/site/public/img/a.png''" and rel = "''img'' @ [backslash] @ ''a.png''" and s = s3_empty,
        THEN conjunct2, THEN conjunct2, THEN conjunct1]
    by (simp add: p spec_key_def normalize_separators_def backslash_def)
  from one two three show ?thesis
    by simp
qed

subsection \<open>The upload loop\<close>

lemma loop_body_error_any_state:
  "fst (loop_body d env path s) = fst (loop_body d env path s')"
  by (simp add: loop_body_def uploadFile_def Let_def split: sum.splits option.splits)

lemma Body_uploadFile_input: "Body (uploadFile_input d env file_Name rel) = file_Name"
  by (simp add: uploadFile_input_def Let_def)

lemma loop_body_ok:
  assumes "fst (loop_body d env path s3_empty) = None"
  shows "\<exists>input. Body input = path \<and>
    loop_body d env path s =
      (None, s\<lparr>attempts := attempts s @ [input],
               objects := (objects s)((Bucket input, Key input) \<mapsto> input)\<rparr>)"
proof -
  from assms obtain rel where rel: "filepath_Rel env (publicPath d) path = Inr rel"
    and opn: "os_Open env path = None"
    and up: "uploader_Upload env (uploadFile_input d env path rel) = None"
    by (auto simp: loop_body_def uploadFile_def Let_def split: sum.splits option.splits)
  then have "loop_body d env path s =
      (None, s\<lparr>attempts := attempts s @ [uploadFile_input d env path rel],
               objects := (objects s)((Bucket (uploadFile_input d env path rel),
                 Key (uploadFile_input d env path rel)) \<mapsto> uploadFile_input d env path rel)\<rparr>)"
    by (simp add: loop_body_def uploadFile_def Let_def)
  then show ?thesis
    using Body_uploadFile_input by blast
qed

lemma loop_body_upload_fails:
  assumes "filepath_Rel env (publicPath d) path = Inr rel" and "os_Open env path = None"
    and "uploader_Upload env (uploadFile_input d env path rel) = Some e"
  shows "loop_body d env path s =
    (Some e, s\<lparr>attempts := attempts s @ [uploadFile_input d env path rel]\<rparr>)"
  using assms by (simp add: loop_body_def uploadFile_def Let_def)

lemma range_walker_Cons:
  assumes "walk_err = None \<or> rest \<noteq> []"
  shows "range_walker d env sch (path # rest) walk_err s =
     (case loop_body d env path s of
        (Some err, s') \<Rightarrow> (Returned (Some err), s')
      | (None, s') \<Rightarrow> range_walker d env sch rest walk_err s')"
  using assms by (cases walk_err; cases rest) auto

lemma range_walker_first_failure:
  assumes ok: "\<forall>q \<in> set before. fst (loop_body d env q s3_empty) = None"
    and rel: "filepath_Rel env (publicPath d) path = Inr rel"
    and opn: "os_Open env path = None"
    and fail: "uploader_Upload env (uploadFile_input d env path rel) = Some e"
    and more: "walk_err = None \<or> after \<noteq> []"
  shows "\<exists>s' new. range_walker d env sch (before @ path # after) walk_err s = (Returned (Some e), s') \<and>
     attempts s' = attempts s @ new @ [uploadFile_input d env path rel] \<and>
     map Body new = before \<and>
     (\<forall>input \<in> set new. objects s' (Bucket input, Key input) \<noteq> None) \<and>
     dom (objects s) \<subseteq> dom (objects s')"
  using ok
proof (induction before arbitrary: s)
  case Nil
  have "range_walker d env sch (path # after) walk_err s =
      (Returned (Some e), s\<lparr>attempts := attempts s @ [uploadFile_input d env path rel]\<rparr>)"
    using more by (simp add: range_walker_Cons loop_body_upload_fails [OF rel opn fail])
  then show ?case
    by simp
next
  case (Cons q before)
  from Cons.prems obtain input where body: "Body input = q"
    and step: "loop_body d env q s =
      (None, s\<lparr>attempts := attempts s @ [input],
               objects := (objects s)((Bucket input, Key input) \<mapsto> input)\<rparr>)"
    using loop_body_ok [of d env q s] by auto
  let ?s1 = "s\<lparr>attempts := attempts s @ [input],
               objects := (objects s)((Bucket input, Key input) \<mapsto> input)\<rparr>"
  from Cons.prems have "\<forall>q \<in> set before. fst (loop_body d env q s3_empty) = None"
    by simp
  from Cons.IH [OF this, of ?s1] obtain s' new where
    run: "range_walker d env sch (before @ path # after) walk_err ?s1 = (Returned (Some e), s')"
    and att: "attempts s' = attempts ?s1 @ new @ [uploadFile_input d env path rel]"
    and bodies: "map Body new = before"
    and stored: "\<forall>input \<in> set new. objects s' (Bucket input, Key input) \<noteq> None"
    and kept: "dom (objects ?s1) \<subseteq> dom (objects s')"
    by blast
  have f1: "range_walker d env sch ((q # before) @ path # after) walk_err s = (Returned (Some e), s')"
    using run step by (simp add: range_walker_Cons)
  have f2: "attempts s' = attempts s @ (input # new) @ [uploadFile_input d env path rel]"
    using att by simp
  have f3: "map Body (input # new) = q # before"
    using body bodies by simp
  have f4: "\<forall>i \<in> set (input # new). objects s' (Bucket i, Key i) \<noteq> None"
    using stored kept by auto
  have f5: "dom (objects s) \<subseteq> dom (objects s')"
    using kept by auto
  show ?case
    by (rule exI [of _ s'], rule exI [of _ "input # new"]) (use f1 f2 f3 f4 f5 in blast)
qed

text \<open>
  C9.  Let the configuration load, let the walker send the files \<open>before\<close>, then
  \<open>path\<close>, then \<open>after\<close>, and end by closing the channel (or, if it ends by a
  panic, let \<open>after\<close> not be empty, so that the panic is never reached).  If every file
  of \<open>before\<close> is handled without error and the upload of \<open>path\<close> fails with \<open>e\<close>,
  then \<open>Deploy\<close> returns \<open>e\<close>; the requests it has made are one for each file of
  \<open>before\<close>, in order, and then the one for \<open>path\<close>, so none for a file of
  \<open>after\<close>; the objects of the requests before the failing one are in the bucket, and
  so is every object that was there at the start.
\<close>

theorem Deploy_stops_at_first_failed_upload:
  assumes cfg: "LoadDefaultConfig env = None"
    and walk: "retrieveFiles d env = (walk_err, before @ path # after)"
    and more: "walk_err = None \<or> after \<noteq> []"
    and ok: "\<forall>q \<in> set before. fst (loop_body d env q s3_empty) = None"
    and rel: "filepath_Rel env (publicPath d) path = Inr rel"
    and opn: "os_Open env path = None"
    and fail: "uploader_Upload env (uploadFile_input d env path rel) = Some e"
  shows "\<exists>s' new. Deploy d env sch s = (Returned (Some e), s') \<and>
     attempts s' = attempts s @ new @ [uploadFile_input d env path rel] \<and>
     map Body new = before \<and> Body (uploadFile_input d env path rel) = path \<and>
     (\<forall>input \<in> set new. objects s' (Bucket input, Key input) \<noteq> None) \<and>
     dom (objects s) \<subseteq> dom (objects s')"
proof -
  have "Deploy d env sch s = range_walker d env sch (before @ path # after) walk_err s"
    using cfg walk by (cases before) (simp_all add: Deploy_def)
  then show ?thesis
    using range_walker_first_failure [OF ok rel opn fail more, of sch s]
    by (simp add: Body_uploadFile_input)
qed

text \<open>
  Three files are walked and the upload of the second fails: \<open>Deploy\<close> returns that
  error after two requests.
\<close>

theorem Deploy_stops_at_first_failed_upload_witness:
  "fst (Deploy (deployment_example ''assets'') (env_example visits_example [''assets/img/a.png''])
          ConsumerFirst s3_empty)
     = Returned (Some (OtherError ''upload failed: assets/img/a.png'')) \<and>
   map Body (attempts (snd (Deploy (deployment_example ''assets'')
          (env_example visits_example [''assets/img/a.png'']) ConsumerFirst s3_empty)))
     = [''/site/public/index.html'', ''/site/public/img/a.png'']"
proof -
  let ?d = "deployment_example ''assets''"
  let ?env = "env_example visits_example [''assets/img/a.png'']"
  have cfg: "LoadDefaultConfig ?env = None"
    by (simp add: env_example_def)
  have walk: "retrieveFiles ?d ?env =
      (None, [''/site/public/index.html''] @ ''/site/public/img/a.png'' # [''/site/public/img/b.unknown''])"
    by code_simp
  have more: "(None :: error option) = None \<or> [''/site/public/img/b.unknown''] \<noteq> []"
    by simp
  have ok: "\<forall>q \<in> set [''/site/public/index.html'']. fst (loop_body ?d ?env q s3_empty) = None"
    by code_simp
  have rel: "filepath_Rel ?env (publicPath ?d) ''/site/public/img/a.png'' = Inr ''img/a.png''"
    by code_simp
  have opn: "os_Open ?env ''/site/public/img/a.png'' = None"
    by (simp add: env_example_def)
  have fail: "uploader_Upload ?env (uploadFile_input ?d ?env ''/site/public/img/a.png'' ''img/a.png'')
      = Some (OtherError ''upload failed: assets/img/a.png'')"
    by code_simp
  from Deploy_stops_at_first_failed_upload [OF cfg walk more ok rel opn fail, of ConsumerFirst s3_empty]
  obtain s' new where run: "Deploy ?d ?env ConsumerFirst s3_empty =
        (Returned (Some (OtherError ''upload failed: assets/img/a.png'')), s')"
    and att: "attempts s' = attempts s3_empty @ new @
        [uploadFile_input ?d ?env ''/site/public/img/a.png'' ''img/a.png'']"
    and bodies: "map Body new = [''/site/public/index.html'']"
    by (elim exE conjE)
  show ?thesis
    using run att bodies by (simp add: s3_empty_def Body_uploadFile_input)
qed

subsection \<open>An error during the walk\<close>







end
